theory Spec2Isabelle
  imports Main "HOL-Library.AList" "HOL-Library.Char_ord" "HOL-Library.List_Lexorder"
begin

section \<open>The catalog seeder: seed-master-integrations.py\<close>

text \<open>
  The script holds two static lists of service definitions and two static sets of service
  names, builds one storage item per definition, writes the items to a key-value table
  (or only logs them in a dry run) and can read the table back for a printed report.

  Python dictionaries are association lists here: \<open>map_of\<close> is the lookup, and
  \<open>AList.update\<close> overwrites a key in place or appends a new one, which is the insertion
  order of a Python dict. Exceptions are values of the type \<open>error\<close>. Strings are ordered
  lexicographically by character code, as Python orders \<open>str\<close>.
\<close>

subsection \<open>Errors and dictionaries\<close>

datatype error =
    KeyError string
  | StorageError string

text \<open>\<open>str(e)\<close>: a \<open>KeyError\<close> prints its key in quotes, a storage exception its message.\<close>

fun str_error :: "error \<Rightarrow> string" where
  "str_error (KeyError k) = [CHR 0x27] @ k @ [CHR 0x27]"
| "str_error (StorageError m) = m"

type_synonym 'v dict = "(string \<times> 'v) list"

text \<open>\<open>d[k]\<close> raises \<open>KeyError\<close> on a missing key; \<open>d.get(k, default)\<close> does not.\<close>

definition getitem :: "'v dict \<Rightarrow> string \<Rightarrow> error + 'v" where
  "getitem d k = (case map_of d k of None \<Rightarrow> Inl (KeyError k) | Some v \<Rightarrow> Inr v)"

definition get_default :: "'v dict \<Rightarrow> string \<Rightarrow> 'v \<Rightarrow> 'v" where
  "get_default d k dflt = (case map_of d k of None \<Rightarrow> dflt | Some v \<Rightarrow> v)"

subsection \<open>Static configuration\<close>

definition ASSETS_ENABLED_SERVICES :: "string set" where
  "ASSETS_ENABLED_SERVICES =
     {''iam'', ''bedrock'', ''ec2'', ''lambda'', ''ecs'', ''eks'',
      ''entraid'', ''intune''}"

definition DATA_DISCOVERY_ENABLED_SERVICES :: "string set" where
  "DATA_DISCOVERY_ENABLED_SERVICES =
     {''s3'', ''dynamodb'', ''ec2'', ''efs'', ''fsx'', ''neptune'', ''rds'', ''redshift'',
      ''sharepoint'', ''onedrive''}"

type_synonym service_config = "string dict"

definition AWS_SERVICES :: "service_config list" where
  "AWS_SERVICES = [
    [(''service'', ''s3''), (''displayName'', ''S3 (Simple Storage Service)''),
     (''category'', ''storage''), (''description'', ''Object storage for data storage and retrieval'')],
    [(''service'', ''efs''), (''displayName'', ''EFS (Elastic File System)''),
     (''category'', ''storage''), (''description'', ''Fully managed elastic NFS file system'')],
    [(''service'', ''fsx''), (''displayName'', ''FSx''),
     (''category'', ''storage''), (''description'', ''Fully managed file systems (Windows, Lustre, ONTAP, OpenZFS)'')],
    [(''service'', ''glacier''), (''displayName'', ''S3 Glacier''),
     (''category'', ''storage''), (''description'', ''Low-cost archive storage'')],
    [(''service'', ''backup''), (''displayName'', ''AWS Backup''),
     (''category'', ''storage''), (''description'', ''Centralized backup service'')],
    [(''service'', ''storagegateway''), (''displayName'', ''Storage Gateway''),
     (''category'', ''storage''), (''description'', ''Hybrid cloud storage integration'')],
    [(''service'', ''transfer''), (''displayName'', ''Transfer Family''),
     (''category'', ''storage''), (''description'', ''SFTP, FTPS, and FTP transfers to S3'')],
    [(''service'', ''dlm''), (''displayName'', ''Data Lifecycle Manager''),
     (''category'', ''storage''), (''description'', ''Automated EBS snapshot and AMI management'')],
    [(''service'', ''ecr''), (''displayName'', ''ECR (Container Registry)''),
     (''category'', ''storage''), (''description'', ''Docker container image registry'')],
    [(''service'', ''dynamodb''), (''displayName'', ''DynamoDB''),
     (''category'', ''database''), (''description'', ''Fully managed NoSQL database'')],
    [(''service'', ''rds''), (''displayName'', ''RDS (Relational Database Service)''),
     (''category'', ''database''), (''description'', ''Managed relational databases'')],
    [(''service'', ''documentdb''), (''displayName'', ''DocumentDB''),
     (''category'', ''database''), (''description'', ''MongoDB-compatible document database'')],
    [(''service'', ''neptune''), (''displayName'', ''Neptune''),
     (''category'', ''database''), (''description'', ''Fully managed graph database'')],
    [(''service'', ''redshift''), (''displayName'', ''Redshift''),
     (''category'', ''database''), (''description'', ''Data warehouse service'')],
    [(''service'', ''elasticache''), (''displayName'', ''ElastiCache''),
     (''category'', ''database''), (''description'', ''In-memory caching (Redis, Memcached)'')],
    [(''service'', ''memorydb''), (''displayName'', ''MemoryDB''),
     (''category'', ''database''), (''description'', ''Redis-compatible in-memory database'')],
    [(''service'', ''dax''), (''displayName'', ''DAX (DynamoDB Accelerator)''),
     (''category'', ''database''), (''description'', ''In-memory cache for DynamoDB'')],
    [(''service'', ''dms''), (''displayName'', ''DMS (Database Migration Service)''),
     (''category'', ''database''), (''description'', ''Database migration and replication'')],
    [(''service'', ''ec2''), (''displayName'', ''EC2 (Elastic Compute Cloud)''),
     (''category'', ''compute''), (''description'', ''Virtual servers in the cloud'')],
    [(''service'', ''lambda''), (''displayName'', ''Lambda''),
     (''category'', ''compute''), (''description'', ''Serverless compute service'')],
    [(''service'', ''ecs''), (''displayName'', ''ECS (Elastic Container Service)''),
     (''category'', ''compute''), (''description'', ''Docker container orchestration'')],
    [(''service'', ''eks''), (''displayName'', ''EKS (Elastic Kubernetes Service)''),
     (''category'', ''compute''), (''description'', ''Managed Kubernetes service'')],
    [(''service'', ''elasticbeanstalk''), (''displayName'', ''Elastic Beanstalk''),
     (''category'', ''compute''), (''description'', ''Application deployment platform'')],
    [(''service'', ''apprunner''), (''displayName'', ''App Runner''),
     (''category'', ''compute''), (''description'', ''Containerized web app deployment'')],
    [(''service'', ''autoscaling''), (''displayName'', ''Auto Scaling''),
     (''category'', ''compute''), (''description'', ''Automatic scaling for EC2'')],
    [(''service'', ''emr''), (''displayName'', ''EMR (Elastic MapReduce)''),
     (''category'', ''compute''), (''description'', ''Big data processing framework'')],
    [(''service'', ''appstream''), (''displayName'', ''AppStream 2.0''),
     (''category'', ''compute''), (''description'', ''Application streaming service'')],
    [(''service'', ''workspaces''), (''displayName'', ''WorkSpaces''),
     (''category'', ''compute''), (''description'', ''Virtual desktops in the cloud'')],
    [(''service'', ''iam''), (''displayName'', ''IAM (Identity and Access Management)''),
     (''category'', ''security''), (''description'', ''Access control and identity management'')],
    [(''service'', ''guardduty''), (''displayName'', ''GuardDuty''),
     (''category'', ''security''), (''description'', ''Intelligent threat detection'')],
    [(''service'', ''securityhub''), (''displayName'', ''Security Hub''),
     (''category'', ''security''), (''description'', ''Security and compliance center'')],
    [(''service'', ''macie''), (''displayName'', ''Macie''),
     (''category'', ''security''), (''description'', ''Sensitive data discovery'')],
    [(''service'', ''inspector''), (''displayName'', ''Inspector''),
     (''category'', ''security''), (''description'', ''Automated security assessment'')],
    [(''service'', ''waf''), (''displayName'', ''WAF (Web Application Firewall)''),
     (''category'', ''security''), (''description'', ''Web application firewall'')],
    [(''service'', ''shield''), (''displayName'', ''Shield''),
     (''category'', ''security''), (''description'', ''DDoS protection'')],
    [(''service'', ''config''), (''displayName'', ''AWS Config''),
     (''category'', ''security''), (''description'', ''Resource configuration tracking'')],
    [(''service'', ''kms''), (''displayName'', ''KMS (Key Management Service)''),
     (''category'', ''security''), (''description'', ''Encryption key management'')],
    [(''service'', ''secretsmanager''), (''displayName'', ''Secrets Manager''),
     (''category'', ''security''), (''description'', ''Secrets rotation and management'')],
    [(''service'', ''accessanalyzer''), (''displayName'', ''IAM Access Analyzer''),
     (''category'', ''security''), (''description'', ''Resource access analysis'')],
    [(''service'', ''acm''), (''displayName'', ''ACM (Certificate Manager)''),
     (''category'', ''security''), (''description'', ''SSL/TLS certificate management'')],
    [(''service'', ''cognito''), (''displayName'', ''Cognito''),
     (''category'', ''security''), (''description'', ''User authentication and authorization'')],
    [(''service'', ''fms''), (''displayName'', ''Firewall Manager''),
     (''category'', ''security''), (''description'', ''Central firewall rule management'')],
    [(''service'', ''networkfirewall''), (''displayName'', ''Network Firewall''),
     (''category'', ''security''), (''description'', ''Managed network firewall'')],
    [(''service'', ''vpc''), (''displayName'', ''VPC (Virtual Private Cloud)''),
     (''category'', ''networking''), (''description'', ''Isolated cloud network'')],
    [(''service'', ''elb''), (''displayName'', ''ELB Classic''),
     (''category'', ''networking''), (''description'', ''Classic load balancer'')],
    [(''service'', ''elbv2''), (''displayName'', ''ELB v2 (ALB/NLB)''),
     (''category'', ''networking''), (''description'', ''Application and network load balancers'')],
    [(''service'', ''route53''), (''displayName'', ''Route 53''),
     (''category'', ''networking''), (''description'', ''DNS and domain management'')],
    [(''service'', ''cloudfront''), (''displayName'', ''CloudFront''),
     (''category'', ''networking''), (''description'', ''Content delivery network (CDN)'')],
    [(''service'', ''directconnect''), (''displayName'', ''Direct Connect''),
     (''category'', ''networking''), (''description'', ''Dedicated network connection'')],
    [(''service'', ''globalaccelerator''), (''displayName'', ''Global Accelerator''),
     (''category'', ''networking''), (''description'', ''Global network performance optimization'')],
    [(''service'', ''apigatewayv2''), (''displayName'', ''API Gateway v2''),
     (''category'', ''networking''), (''description'', ''HTTP and WebSocket APIs'')],
    [(''service'', ''apigateway''), (''displayName'', ''API Gateway''),
     (''category'', ''networking''), (''description'', ''REST API management'')],
    [(''service'', ''bedrock''), (''displayName'', ''Bedrock''),
     (''category'', ''ai_ml''), (''description'', ''Foundation models for generative AI'')],
    [(''service'', ''sagemaker''), (''displayName'', ''SageMaker''),
     (''category'', ''ai_ml''), (''description'', ''Machine learning platform'')],
    [(''service'', ''amazon_q''), (''displayName'', ''Amazon Q''),
     (''category'', ''ai_ml''), (''description'', ''AI-powered assistant'')],
    [(''service'', ''athena''), (''displayName'', ''Athena''),
     (''category'', ''analytics''), (''description'', ''Interactive query service for S3'')],
    [(''service'', ''glue''), (''displayName'', ''Glue''),
     (''category'', ''analytics''), (''description'', ''ETL and data catalog service'')],
    [(''service'', ''kinesis''), (''displayName'', ''Kinesis Data Streams''),
     (''category'', ''analytics''), (''description'', ''Real-time data streaming'')],
    [(''service'', ''firehose''), (''displayName'', ''Kinesis Firehose''),
     (''category'', ''analytics''), (''description'', ''Data delivery to destinations'')],
    [(''service'', ''opensearch''), (''displayName'', ''OpenSearch''),
     (''category'', ''analytics''), (''description'', ''Search and analytics engine'')],
    [(''service'', ''lakeformation''), (''displayName'', ''Lake Formation''),
     (''category'', ''analytics''), (''description'', ''Data lake management'')],
    [(''service'', ''msk''), (''displayName'', ''MSK (Managed Streaming for Kafka)''),
     (''category'', ''analytics''), (''description'', ''Managed Apache Kafka'')],
    [(''service'', ''sns''), (''displayName'', ''SNS (Simple Notification Service)''),
     (''category'', ''integration''), (''description'', ''Pub/sub messaging'')],
    [(''service'', ''sqs''), (''displayName'', ''SQS (Simple Queue Service)''),
     (''category'', ''integration''), (''description'', ''Message queuing'')],
    [(''service'', ''ses''), (''displayName'', ''SES (Simple Email Service)''),
     (''category'', ''integration''), (''description'', ''Email sending and receiving'')],
    [(''service'', ''eventbridge''), (''displayName'', ''EventBridge''),
     (''category'', ''integration''), (''description'', ''Serverless event bus'')],
    [(''service'', ''stepfunctions''), (''displayName'', ''Step Functions''),
     (''category'', ''integration''), (''description'', ''Workflow orchestration'')],
    [(''service'', ''mq''), (''displayName'', ''Amazon MQ''),
     (''category'', ''integration''), (''description'', ''Managed message broker'')],
    [(''service'', ''appsync''), (''displayName'', ''AppSync''),
     (''category'', ''integration''), (''description'', ''Managed GraphQL service'')],
    [(''service'', ''amplify''), (''displayName'', ''Amplify''),
     (''category'', ''integration''), (''description'', ''Full-stack app development'')],
    [(''service'', ''iot''), (''displayName'', ''IoT Core''),
     (''category'', ''integration''), (''description'', ''IoT device connectivity'')],
    [(''service'', ''cloudtrail''), (''displayName'', ''CloudTrail''),
     (''category'', ''management''), (''description'', ''AWS API logging and auditing'')],
    [(''service'', ''cloudwatch''), (''displayName'', ''CloudWatch''),
     (''category'', ''management''), (''description'', ''Monitoring and observability'')],
    [(''service'', ''cloudformation''), (''displayName'', ''CloudFormation''),
     (''category'', ''management''), (''description'', ''Infrastructure as code'')],
    [(''service'', ''ssm''), (''displayName'', ''Systems Manager''),
     (''category'', ''management''), (''description'', ''Operations management'')],
    [(''service'', ''organizations''), (''displayName'', ''Organizations''),
     (''category'', ''management''), (''description'', ''Multi-account management'')],
    [(''service'', ''ram''), (''displayName'', ''RAM (Resource Access Manager)''),
     (''category'', ''management''), (''description'', ''Cross-account resource sharing'')],
    [(''service'', ''servicecatalog''), (''displayName'', ''Service Catalog''),
     (''category'', ''management''), (''description'', ''IT service catalog'')],
    [(''service'', ''directoryservice''), (''displayName'', ''Directory Service''),
     (''category'', ''management''), (''description'', ''Managed Active Directory'')],
    [(''service'', ''drs''), (''displayName'', ''DRS (Disaster Recovery Service)''),
     (''category'', ''management''), (''description'', ''Disaster recovery'')],
    [(''service'', ''codebuild''), (''displayName'', ''CodeBuild''),
     (''category'', ''management''), (''description'', ''Build service'')],
    [(''service'', ''codepipeline''), (''displayName'', ''CodePipeline''),
     (''category'', ''management''), (''description'', ''CI/CD pipelines'')],
    [(''service'', ''codedeploy''), (''displayName'', ''CodeDeploy''),
     (''category'', ''management''), (''description'', ''Deployment automation'')]
  ]"

definition M365_SERVICES :: "service_config list" where
  "M365_SERVICES = [
    [(''service'', ''entraid''), (''displayName'', ''Entra ID (Azure AD)''),
     (''category'', ''identity''), (''description'', ''Users, groups, and identity management'')],
    [(''service'', ''intune''), (''displayName'', ''Intune''),
     (''category'', ''management''), (''description'', ''Device management and compliance'')],
    [(''service'', ''sharepoint''), (''displayName'', ''SharePoint Online''),
     (''category'', ''collaboration''), (''description'', ''Document management and collaboration'')],
    [(''service'', ''onedrive''), (''displayName'', ''OneDrive for Business''),
     (''category'', ''storage''), (''description'', ''Personal cloud storage'')]
  ]"

subsection \<open>get_table_name\<close>

definition get_table_name :: "string \<Rightarrow> string" where
  "get_table_name environment = ''master-integrations''"

subsection \<open>build_service_item\<close>

text \<open>
  The item written to the table. The nested \<open>features\<close> map holds, for each of the three
  features, the flag as a boolean and a fixed description.
\<close>

record feature =
  enabled :: bool
  feature_description :: string

record features_map =
  cspm :: feature
  assets :: feature
  dataDiscovery :: feature

record item =
  pk :: string
  provider :: string
  service :: string
  displayName :: string
  description :: string
  category :: string
  cspmEnabled :: string
  assetsEnabled :: string
  dataDiscoveryEnabled :: string
  features :: features_map
  collectorName :: string
  createdAt :: string
  updatedAt :: string
  updatedBy :: string

text \<open>
  \<open>now\<close> is the value of \<open>datetime.now(timezone.utc).isoformat()\<close> read by the call. The
  subscripts \<open>service_config["service"]\<close>, \<open>["displayName"]\<close> and \<open>["category"]\<close> raise
  \<open>KeyError\<close> in this order; \<open>description\<close> is read with \<open>.get\<close> and defaults to the
  empty string.
\<close>

definition build_service_item :: "service_config \<Rightarrow> string \<Rightarrow> string \<Rightarrow> error + item" where
  "build_service_item service_config provider_arg now =
     (case getitem service_config ''service'' of
        Inl e \<Rightarrow> Inl e
      | Inr service_name \<Rightarrow>
          (let cspm_enabled = True;
               assets_enabled = (service_name \<in> ASSETS_ENABLED_SERVICES);
               data_discovery_enabled = (service_name \<in> DATA_DISCOVERY_ENABLED_SERVICES)
           in case getitem service_config ''displayName'' of
                Inl e \<Rightarrow> Inl e
              | Inr display_name \<Rightarrow>
                  (case getitem service_config ''category'' of
                     Inl e \<Rightarrow> Inl e
                   | Inr category_name \<Rightarrow>
                       Inr \<lparr> pk = provider_arg @ ''#'' @ service_name,
                             provider = provider_arg,
                             service = service_name,
                             displayName = display_name,
                             description = get_default service_config ''description'' [],
                             category = category_name,
                             cspmEnabled = (if cspm_enabled then ''true'' else ''false''),
                             assetsEnabled = (if assets_enabled then ''true'' else ''false''),
                             dataDiscoveryEnabled =
                               (if data_discovery_enabled then ''true'' else ''false''),
                             features =
                               \<lparr> cspm = \<lparr> enabled = cspm_enabled,
                                   feature_description =
                                     ''Cloud Security Posture Management checks'' \<rparr>,
                                 assets = \<lparr> enabled = assets_enabled,
                                   feature_description = ''Asset inventory tracking'' \<rparr>,
                                 dataDiscovery = \<lparr> enabled = data_discovery_enabled,
                                   feature_description =
                                     ''Data discovery and classification'' \<rparr> \<rparr>,
                             collectorName = service_name,
                             createdAt = now,
                             updatedAt = now,
                             updatedBy = ''system'' \<rparr>)))"

subsection \<open>Printing helpers\<close>

text \<open>\<open>str(n)\<close> for an integer, \<open>sep.join(xs)\<close>, and the rule \<open>"=" * 80\<close>.\<close>

definition digit_char :: "nat \<Rightarrow> char" where
  "digit_char d = ''0123456789'' ! (d mod 10)"

fun str_nat :: "nat \<Rightarrow> string" where
  "str_nat n = (if n < 10 then [digit_char n] else str_nat (n div 10) @ [digit_char (n mod 10)])"

declare str_nat.simps [simp del]

definition str_int :: "int \<Rightarrow> string" where
  "str_int i = (if i < 0 then ''-'' @ str_nat (nat (- i)) else str_nat (nat i))"

fun join :: "string \<Rightarrow> string list \<Rightarrow> string" where
  "join sep [] = []"
| "join sep [x] = x"
| "join sep (x # y # ys) = x @ sep @ join sep (y # ys)"

definition rule80 :: string where
  "rule80 = replicate 80 CHR ''=''"

subsection \<open>seed_services\<close>

text \<open>
  The boto3 library is outside the repository, so its behaviour is a parameter of the
  model. The table handle is obtained by \<open>boto3.resource('dynamodb')\<close> followed by
  \<open>dynamodb.Table(table_name)\<close>: \<open>resource env name\<close> and \<open>Table env name\<close> are the
  outcomes of these two calls, \<open>None\<close> when the call returns and \<open>Some e\<close> when it raises
  \<open>e\<close>. Both calls stand outside every \<open>try\<close>, so an exception of either leaves the
  calling function.
\<close>

record boto_env =
  resource :: "string \<Rightarrow> error option"
  Table :: "string \<Rightarrow> error option"

definition open_table :: "'a boto_env_scheme \<Rightarrow> string \<Rightarrow> error option" where
  "open_table env table_name =
     (case resource env ''dynamodb'' of
        Some e \<Rightarrow> Some e
      | None \<Rightarrow> Table env table_name)"

text \<open>
  \<open>put_item env i it\<close> is the outcome of the write attempted for entry number \<open>i\<close> of the
  run: \<open>None\<close> when the call returns, \<open>Some e\<close> when it raises \<open>e\<close>. \<open>clock env i\<close> is the
  time read while building entry number \<open>i\<close>.
\<close>

record seed_env = boto_env +
  clock :: "nat \<Rightarrow> string"
  put_item :: "nat \<Rightarrow> item \<Rightarrow> error option"

datatype level = INFO | ERROR

text \<open>
  The local variables of the run, together with what the run has done so far: the lines
  given to the logger and the items given to \<open>table.put_item\<close>, in call order.
\<close>

record seed_state =
  stats :: "int dict"
  items_by_category :: "int dict"
  items_by_provider :: "int dict"
  logged :: "(level \<times> string) list"
  put_calls :: "item list"

text \<open>\<open>d[k] += 1\<close> reads \<open>d[k]\<close> first, so it raises \<open>KeyError\<close> on a missing key.\<close>

definition incr :: "int dict \<Rightarrow> string \<Rightarrow> error + int dict" where
  "incr d k = (case getitem d k of Inl e \<Rightarrow> Inl e | Inr v \<Rightarrow> Inr (AList.update k (v + 1) d))"

text \<open>\<open>d[k] = d.get(k, 0) + 1\<close>\<close>

definition count_up :: "int dict \<Rightarrow> string \<Rightarrow> int dict" where
  "count_up d k = AList.update k (get_default d k 0 + 1) d"

definition dry_run_features :: "item \<Rightarrow> string list" where
  "dry_run_features it =
     (let features0 = [];
          features1 = (if cspmEnabled it = ''true'' then features0 @ [''CSPM''] else features0);
          features2 = (if assetsEnabled it = ''true'' then features1 @ [''Assets''] else features1);
          features3 = (if dataDiscoveryEnabled it = ''true''
                       then features2 @ [''DataDiscovery''] else features2)
      in features3)"

text \<open>The three per-entry log lines, with the logger's level.\<close>

definition dry_run_line :: "item \<Rightarrow> level \<times> string" where
  "dry_run_line it = (INFO, ''  [DRY RUN] '' @ pk it @ '': '' @ join '', '' (dry_run_features it))"

definition written_line :: "item \<Rightarrow> level \<times> string" where
  "written_line it = (INFO, ''  Written: '' @ pk it)"

definition error_line :: "item \<Rightarrow> error \<Rightarrow> level \<times> string" where
  "error_line it e = (ERROR, ''  Error writing '' @ pk it @ '': '' @ str_error e)"

text \<open>
  The body of the \<open>try\<close>: the write, the log line and the increment of \<open>written\<close>. An
  exception leaves with the state reached so far.
\<close>

definition try_put :: "seed_env \<Rightarrow> nat \<Rightarrow> item \<Rightarrow> seed_state \<Rightarrow> (error \<times> seed_state) + seed_state" where
  "try_put env i it st =
     (let st1 = st\<lparr>put_calls := put_calls st @ [it]\<rparr>
      in case put_item env i it of
           Some e \<Rightarrow> Inl (e, st1)
         | None \<Rightarrow>
             (let st2 = st1\<lparr>logged := logged st1 @ [written_line it]\<rparr>
              in case incr (stats st2) ''written'' of
                   Inl e \<Rightarrow> Inl (e, st2)
                 | Inr stats' \<Rightarrow> Inr (st2\<lparr>stats := stats'\<rparr>)))"

text \<open>One iteration of the loop over \<open>all_services\<close>, for entry number \<open>i\<close>.\<close>

definition seed_step :: "seed_env \<Rightarrow> bool \<Rightarrow> nat \<Rightarrow> service_config \<times> string \<Rightarrow> seed_state \<Rightarrow> error + seed_state" where
  "seed_step env dry_run i entry st =
     (case entry of (service_config, provider_name) \<Rightarrow>
       (case incr (stats st) ''processed'' of
          Inl e \<Rightarrow> Inl e
        | Inr stats1 \<Rightarrow>
           (case build_service_item service_config provider_name (clock env i) of
              Inl e \<Rightarrow> Inl e
            | Inr it \<Rightarrow>
               (case getitem service_config ''category'' of
                  Inl e \<Rightarrow> Inl e
                | Inr category_name \<Rightarrow>
                   (let st1 = st\<lparr>stats := stats1,
                          items_by_category := count_up (items_by_category st) category_name,
                          items_by_provider := count_up (items_by_provider st) provider_name\<rparr>
                    in if dry_run then
                         (let st2 = st1\<lparr>logged := logged st1 @ [dry_run_line it]\<rparr>
                          in (case incr (stats st2) ''written'' of
                                Inl e \<Rightarrow> Inl e
                              | Inr stats' \<Rightarrow> Inr (st2\<lparr>stats := stats'\<rparr>)))
                       else
                         (case try_put env i it st1 of
                            Inr st2 \<Rightarrow> Inr st2
                          | Inl (e, st2) \<Rightarrow>
                              (let st3 = st2\<lparr>logged := logged st2 @ [error_line it e]\<rparr>
                               in (case incr (stats st3) ''errors'' of
                                     Inl e' \<Rightarrow> Inl e'
                                   | Inr stats' \<Rightarrow> Inr (st3\<lparr>stats := stats'\<rparr>)))))))))"

text \<open>The \<open>for\<close> loop: an exception that leaves an iteration leaves the loop.\<close>

fun seed_loop :: "seed_env \<Rightarrow> bool \<Rightarrow> nat \<Rightarrow> (service_config \<times> string) list \<Rightarrow> seed_state \<Rightarrow> error + seed_state" where
  "seed_loop env dry_run i [] st = Inr st"
| "seed_loop env dry_run i (entry # rest) st =
     (case seed_step env dry_run i entry st of
        Inl e \<Rightarrow> Inl e
      | Inr st' \<Rightarrow> seed_loop env dry_run (Suc i) rest st')"

definition all_services :: "(service_config \<times> string) list" where
  "all_services =
     map (\<lambda>service_config. (service_config, ''aws'')) AWS_SERVICES @
     map (\<lambda>service_config. (service_config, ''m365'')) M365_SERVICES"

text \<open>The summary printed after the loop: one string for each call of \<open>print\<close>.\<close>

definition count_lines :: "int dict \<Rightarrow> string list" where
  "count_lines d = map (\<lambda>(k, n). ''  '' @ k @ '': '' @ str_int n) (sort_key fst d)"

definition seed_summary :: "seed_state \<Rightarrow> error + string list" where
  "seed_summary st =
     (case getitem (stats st) ''processed'' of Inl e \<Rightarrow> Inl e | Inr processed_count \<Rightarrow>
     (case getitem (stats st) ''written'' of Inl e \<Rightarrow> Inl e | Inr written_count \<Rightarrow>
     (case getitem (stats st) ''errors'' of Inl e \<Rightarrow> Inl e | Inr error_count \<Rightarrow>
        (let assets_services = sorted_list_of_set ASSETS_ENABLED_SERVICES;
             data_discovery_services = sorted_list_of_set DATA_DISCOVERY_ENABLED_SERVICES
         in Inr ([[CHR 0x0A] @ rule80,
                  ''Seeding Summary'',
                  rule80,
                  ''Total services: '' @ str_int processed_count,
                  ''Written: '' @ str_int written_count,
                  ''Errors: '' @ str_int error_count,
                  [CHR 0x0A] @ ''By provider:''] @
                 count_lines (items_by_provider st) @
                 [[CHR 0x0A] @ ''By category:''] @
                 count_lines (items_by_category st) @
                 [[CHR 0x0A] @ ''Feature coverage:'',
                  ''  CSPM: '' @ str_int processed_count @ '' services (all)'',
                  ''  Assets: '' @ str_int (int (length assets_services)) @ '' services ('' @
                    join '', '' assets_services @ '')'',
                  ''  Data Discovery: '' @ str_int (int (length data_discovery_services)) @
                    '' services ('' @ join '', '' data_discovery_services @ '')'',
                  rule80])))))"

text \<open>
  A real run obtains the table handle after the first log line and before the loop; a
  dry run does not touch the library. What a call of \<open>seed_services\<close> that returns
  leaves behind: the returned dictionary
  \<open>stats\<close>, the printed summary, the log lines and the items given to \<open>table.put_item\<close>.
\<close>

record seed_result =
  returned :: "int dict"
  printed :: "string list"
  log_lines :: "(level \<times> string) list"
  writes :: "item list"

definition seed_services :: "seed_env \<Rightarrow> string \<Rightarrow> bool \<Rightarrow> error + seed_result" where
  "seed_services env environment dry_run =
     (let table_name = get_table_name environment;
          st0 = \<lparr> stats = [(''processed'', 0), (''written'', 0), (''errors'', 0)],
                  items_by_category = [],
                  items_by_provider = [],
                  logged = [(INFO, (if dry_run then ''[DRY RUN] '' else []) @
                                   ''Seeding services to table: '' @ table_name)],
                  put_calls = [] \<rparr>
      in case (if dry_run then None else open_table env table_name) of
           Some e \<Rightarrow> Inl e
         | None \<Rightarrow>
             (case seed_loop env dry_run 0 all_services st0 of
                Inl e \<Rightarrow> Inl e
              | Inr st \<Rightarrow>
                  (case seed_summary st of
                     Inl e \<Rightarrow> Inl e
                   | Inr summary_lines \<Rightarrow>
                       Inr \<lparr> returned = stats st, printed = summary_lines,
                             log_lines = logged st, writes = put_calls st \<rparr>)))"

subsection \<open>verify_table\<close>

text \<open>
  A row read back from the table is a dictionary from attribute names to values; the
  report reads string-valued attributes only, so the values are strings here. A scan
  response may hold a list \<open>Items\<close> and a key \<open>LastEvaluatedKey\<close>. The table's behaviour
  is the parameter \<open>scan\<close>: \<open>scan n key\<close> is the outcome of scan call number \<open>n\<close> of the
  pass, made with \<open>ExclusiveStartKey = key\<close> (\<open>None\<close> for the first call, which has no
  start key).
\<close>

type_synonym row = "string dict"

record response =
  Items :: "row list option"
  LastEvaluatedKey :: "row option"

type_synonym scan_fn = "nat \<Rightarrow> row option \<Rightarrow> error + response"

definition response_items :: "response \<Rightarrow> row list" where
  "response_items resp = (case Items resp of None \<Rightarrow> [] | Some rows \<Rightarrow> rows)"

text \<open>
  The pagination loop \<open>while 'LastEvaluatedKey' in response\<close>, after \<open>n\<close> scan calls. It
  runs for as long as the table keeps answering with a continuation key, so it is a
  partial function: \<open>None\<close> is a pass that never leaves the loop. The result is the rows
  read, or the exception of the call that raised, with the number of scan calls made.
\<close>

partial_function (option) scan_rest :: "scan_fn \<Rightarrow> nat \<Rightarrow> response \<Rightarrow> row list \<Rightarrow> ((error + row list) \<times> nat) option" where
  "scan_rest scan n resp rows =
     (case LastEvaluatedKey resp of
        None \<Rightarrow> Some (Inr rows, n)
      | Some key \<Rightarrow>
          (case scan n (Some key) of
             Inl e \<Rightarrow> Some (Inl e, Suc n)
           | Inr resp' \<Rightarrow> scan_rest scan (Suc n) resp' (rows @ response_items resp')))"

definition scan_all :: "scan_fn \<Rightarrow> ((error + row list) \<times> nat) option" where
  "scan_all scan =
     (case scan 0 None of
        Inl e \<Rightarrow> Some (Inl e, Suc 0)
      | Inr resp \<Rightarrow> scan_rest scan (Suc 0) resp (response_items resp))"

record verify_counts =
  by_provider :: "int dict"
  by_category :: "int dict"
  cspm_count :: int
  assets_count :: int
  data_discovery_count :: int

definition flag_set :: "row \<Rightarrow> string \<Rightarrow> bool" where
  "flag_set r k = (map_of r k = Some ''true'')"

fun count_rows :: "row list \<Rightarrow> verify_counts \<Rightarrow> verify_counts" where
  "count_rows [] c = c"
| "count_rows (r # rs) c =
     (let provider_name = get_default r ''provider'' ''unknown'';
          category_name = get_default r ''category'' ''unknown''
      in count_rows rs
           \<lparr> by_provider = count_up (by_provider c) provider_name,
             by_category = count_up (by_category c) category_name,
             cspm_count = (if flag_set r ''cspmEnabled'' then cspm_count c + 1 else cspm_count c),
             assets_count =
               (if flag_set r ''assetsEnabled'' then assets_count c + 1 else assets_count c),
             data_discovery_count =
               (if flag_set r ''dataDiscoveryEnabled'' then data_discovery_count c + 1
                else data_discovery_count c) \<rparr>)"

text \<open>\<open>str(item.get(k))\<close> inside an f-string: a missing attribute prints as \<open>None\<close>.\<close>

definition str_get :: "row \<Rightarrow> string \<Rightarrow> string" where
  "str_get r k = (case map_of r k of None \<Rightarrow> ''None'' | Some v \<Rightarrow> v)"

definition feature_lines :: "string \<Rightarrow> row list \<Rightarrow> string list" where
  "feature_lines flag rows =
     map (\<lambda>r. ''  - ['' @ str_get r ''provider'' @ ''] '' @ str_get r ''service'' @ '': '' @
               str_get r ''displayName'')
       (filter (\<lambda>r. flag_set r flag) (sort_key (\<lambda>r. get_default r ''pk'' []) rows))"

text \<open>Everything the \<open>try\<close> block prints once all pages have been read.\<close>

definition report :: "row list \<Rightarrow> string list" where
  "report rows =
     (let c = count_rows rows
                \<lparr> by_provider = [], by_category = [], cspm_count = 0, assets_count = 0,
                  data_discovery_count = 0 \<rparr>
      in [''Total items: '' @ str_int (int (length rows)),
          [CHR 0x0A] @ ''By provider:''] @
         count_lines (by_provider c) @
         [[CHR 0x0A] @ ''By category:''] @
         count_lines (by_category c) @
         [[CHR 0x0A] @ ''Feature coverage:'',
          ''  CSPM enabled: '' @ str_int (cspm_count c),
          ''  Assets enabled: '' @ str_int (assets_count c),
          ''  Data Discovery enabled: '' @ str_int (data_discovery_count c),
          [CHR 0x0A] @ ''Services with Assets feature:''] @
         feature_lines ''assetsEnabled'' rows @
         [[CHR 0x0A] @ ''Services with Data Discovery feature:''] @
         feature_lines ''dataDiscoveryEnabled'' rows)"

text \<open>
  A pass that returns leaves the printed lines and the number of scan calls it made.
  The table handle is obtained first, before anything is printed and outside the
  \<open>try\<close>, so an exception there leaves \<open>verify_table\<close>. Nothing is printed from the
  \<open>try\<close> block before the last page has been read; an exception raised by a scan call
  goes to the handler, which prints one line.
\<close>

record verify_env = boto_env +
  table_scan :: scan_fn

record verify_result =
  verify_printed :: "string list"
  scan_calls :: nat

definition verify_table :: "verify_env \<Rightarrow> string \<Rightarrow> (error + verify_result) option" where
  "verify_table env environment =
     (let table_name = get_table_name environment
      in case open_table env table_name of
           Some e \<Rightarrow> Some (Inl e)
         | None \<Rightarrow>
             (let heading = [''Verifying master-integrations table: '' @ table_name, rule80]
              in case scan_all (table_scan env) of
                   None \<Rightarrow> None
                 | Some (Inl e, n) \<Rightarrow>
                     Some (Inr \<lparr> verify_printed =
                                   heading @ [''Error verifying table: '' @ str_error e] @
                                   [rule80],
                                 scan_calls = n \<rparr>)
                 | Some (Inr rows, n) \<Rightarrow>
                     Some (Inr \<lparr> verify_printed = heading @ report rows @ [rule80],
                                 scan_calls = n \<rparr>)))"

text \<open>
  The requests of a pass: \<open>start_key scan n = Some key\<close> when the pass makes scan call
  number \<open>n\<close>, and makes it with start key \<open>key\<close>. The first call has no start key;
  call \<open>n + 1\<close> is made when call \<open>n\<close> returned a response holding a
  \<open>LastEvaluatedKey\<close>, and it starts from that key.
\<close>

primrec start_key :: "scan_fn \<Rightarrow> nat \<Rightarrow> row option option" where
  "start_key scan 0 = Some None"
| "start_key scan (Suc n) =
     (case start_key scan n of
        None \<Rightarrow> None
      | Some key \<Rightarrow>
          (case scan n key of
             Inl e \<Rightarrow> None
           | Inr resp \<Rightarrow>
               (case LastEvaluatedKey resp of None \<Rightarrow> None | Some k \<Rightarrow> Some (Some k))))"

subsection \<open>Sample environments and notation for the statements\<close>

text \<open>
  A table on which every write succeeds, one on which the first write raises, and a
  library that raises when asked for the resource, as it does without a configured region.
\<close>

definition env_ok :: seed_env where
  "env_ok =
     \<lparr> resource = (\<lambda>name. None), Table = (\<lambda>name. None),
       clock = (\<lambda>i. ''2024-01-01T00:00:00+00:00''), put_item = (\<lambda>i it. None) \<rparr>"

definition env_first_fails :: seed_env where
  "env_first_fails =
     \<lparr> resource = (\<lambda>name. None), Table = (\<lambda>name. None),
       clock = (\<lambda>i. ''2024-01-01T00:00:00+00:00''),
       put_item = (\<lambda>i it. if i = 0 then Some (StorageError ''throttled'') else None) \<rparr>"

definition env_no_handle :: seed_env where
  "env_no_handle =
     \<lparr> resource = (\<lambda>name. Some (StorageError ''You must specify a region.'')),
       Table = (\<lambda>name. None),
       clock = (\<lambda>i. ''2024-01-01T00:00:00+00:00''), put_item = (\<lambda>i it. None) \<rparr>"

text \<open>A table that answers the first scan with one row and a continuation key, and then raises.\<close>

definition scan_second_fails :: scan_fn where
  "scan_second_fails n key =
     (if n = 0
      then Inr \<lparr> Items = Some [[(''pk'', ''aws#s3''), (''provider'', ''aws'')]],
                 LastEvaluatedKey = Some [(''pk'', ''aws#s3'')] \<rparr>
      else Inl (StorageError ''ProvisionedThroughputExceededException''))"

definition verify_env_second_fails :: verify_env where
  "verify_env_second_fails =
     \<lparr> resource = (\<lambda>name. None), Table = (\<lambda>name. None), table_scan = scan_second_fails \<rparr>"

text \<open>
  \<open>built_items env i xs its\<close>: the entries \<open>xs\<close>, numbered from \<open>i\<close>, all build, and \<open>its\<close>
  are the items built, in order. \<open>complete_config\<close>: the three keys that
  \<open>build_service_item\<close> subscripts are present. \<open>totals\<close>: the dictionary \<open>stats\<close>.
\<close>

abbreviation built_items :: "seed_env \<Rightarrow> nat \<Rightarrow> (service_config \<times> string) list \<Rightarrow> item list \<Rightarrow> bool" where
  "built_items env i xs its \<equiv>
     map Inr its = map (\<lambda>(k, (sc, p)). build_service_item sc p (clock env k)) (enumerate i xs)"

abbreviation complete_config :: "service_config \<Rightarrow> bool" where
  "complete_config sc \<equiv>
     map_of sc ''service'' \<noteq> None \<and> map_of sc ''displayName'' \<noteq> None \<and>
     map_of sc ''category'' \<noteq> None"

abbreviation totals :: "int \<Rightarrow> int \<Rightarrow> int \<Rightarrow> int dict" where
  "totals a b c \<equiv> [(''processed'', a), (''written'', b), (''errors'', c)]"

text \<open>The summary printed by a run over the static lists, with the three totals left open.\<close>

abbreviation summary_text :: "int \<Rightarrow> int \<Rightarrow> int \<Rightarrow> string list" where
  "summary_text a b c \<equiv>
     [[CHR 0x0A] @ rule80,
      ''Seeding Summary'',
      rule80,
      ''Total services: '' @ str_int a,
      ''Written: '' @ str_int b,
      ''Errors: '' @ str_int c,
      [CHR 0x0A] @ ''By provider:'',
      ''  aws: 83'',
      ''  m365: 4'',
      [CHR 0x0A] @ ''By category:'',
      ''  ai_ml: 3'',
      ''  analytics: 7'',
      ''  collaboration: 1'',
      ''  compute: 10'',
      ''  database: 9'',
      ''  identity: 1'',
      ''  integration: 9'',
      ''  management: 13'',
      ''  networking: 9'',
      ''  security: 15'',
      ''  storage: 10'',
      [CHR 0x0A] @ ''Feature coverage:'',
      ''  CSPM: '' @ str_int a @ '' services (all)'',
      ''  Assets: 8 services (bedrock, ec2, ecs, eks, entraid, iam, intune, lambda)'',
      ''  Data Discovery: 10 services (dynamodb, ec2, efs, fsx, neptune, onedrive, rds, redshift, s3, sharepoint)'',
      rule80]"

section \<open>Properties\<close>

subsection \<open>Building one item\<close>

lemma build_complete:
  assumes "complete_config sc"
  shows "\<exists>it. build_service_item sc p now = Inr it"
  using assms by (auto simp: build_service_item_def getitem_def Let_def)

lemma build_fields:
  assumes "build_service_item sc p now = Inr it"
  shows "map_of sc ''service'' = Some (service it)"
    and "map_of sc ''category'' = Some (category it)"
    and "provider it = p"
    and "pk it = p @ ''#'' @ service it"
    and "createdAt it = now" and "updatedAt it = now"
  using assms
  by (auto simp: build_service_item_def getitem_def Let_def split: option.splits)

subsection \<open>The static lists\<close>

lemma static_complete: "list_all (\<lambda>(sc, p). complete_config sc) all_services"
  by (simp add: all_services_def AWS_SERVICES_def M365_SERVICES_def)

lemma static_lengths:
  "length AWS_SERVICES = 83" "length M365_SERVICES = 4" "length all_services = 87"
  by (simp_all add: all_services_def AWS_SERVICES_def M365_SERVICES_def)

lemma static_by_provider:
  "fold (\<lambda>k d. count_up d k) (map snd all_services) [] = [(''aws'', 83), (''m365'', 4)]"
  by (simp add: all_services_def AWS_SERVICES_def M365_SERVICES_def count_up_def get_default_def)

lemma static_by_category:
  "fold (\<lambda>k d. count_up d k) (map (\<lambda>(sc, p). get_default sc ''category'' []) all_services) [] =
     [(''storage'', 10), (''database'', 9), (''compute'', 10), (''security'', 15),
      (''networking'', 9), (''ai_ml'', 3), (''analytics'', 7), (''integration'', 9),
      (''management'', 13), (''identity'', 1), (''collaboration'', 1)]"
  by (simp add: all_services_def AWS_SERVICES_def M365_SERVICES_def count_up_def get_default_def)

lemma static_pks:
  "distinct (map (\<lambda>(sc, p). p @ ''#'' @ get_default sc ''service'' []) all_services)"
  by (simp add: all_services_def AWS_SERVICES_def M365_SERVICES_def get_default_def)

lemma static_names:
  "distinct (map (\<lambda>(sc, p). (p, get_default sc ''service'' [])) all_services)"
  by (simp add: all_services_def AWS_SERVICES_def M365_SERVICES_def get_default_def)

subsection \<open>One iteration of the seeding loop\<close>

lemma incr_totals:
  "incr (totals a b c) ''processed'' = Inr (totals (a + 1) b c)"
  "incr (totals a b c) ''written'' = Inr (totals a (b + 1) c)"
  "incr (totals a b c) ''errors'' = Inr (totals a b (c + 1))"
  by (simp_all add: incr_def getitem_def)

lemma seed_step_dry:
  assumes "build_service_item sc p (clock env i) = Inr it" and "stats st = totals a b c"
  shows "seed_step env True i (sc, p) st =
           Inr (st\<lparr>stats := totals (a + 1) (b + 1) c,
                   items_by_category := count_up (items_by_category st) (category it),
                   items_by_provider := count_up (items_by_provider st) p,
                   logged := logged st @ [dry_run_line it]\<rparr>)"
  using assms build_fields(2)[OF assms(1)]
  by (simp add: seed_step_def incr_totals getitem_def Let_def)

lemma seed_step_written:
  assumes "build_service_item sc p (clock env i) = Inr it" and "stats st = totals a b c"
    and "put_item env i it = None"
  shows "seed_step env False i (sc, p) st =
           Inr (st\<lparr>stats := totals (a + 1) (b + 1) c,
                   items_by_category := count_up (items_by_category st) (category it),
                   items_by_provider := count_up (items_by_provider st) p,
                   logged := logged st @ [written_line it],
                   put_calls := put_calls st @ [it]\<rparr>)"
  using assms build_fields(2)[OF assms(1)]
  by (simp add: seed_step_def try_put_def incr_totals getitem_def Let_def)

lemma seed_step_failed:
  assumes "build_service_item sc p (clock env i) = Inr it" and "stats st = totals a b c"
    and "put_item env i it = Some e"
  shows "seed_step env False i (sc, p) st =
           Inr (st\<lparr>stats := totals (a + 1) b (c + 1),
                   items_by_category := count_up (items_by_category st) (category it),
                   items_by_provider := count_up (items_by_provider st) p,
                   logged := logged st @ [error_line it e],
                   put_calls := put_calls st @ [it]\<rparr>)"
  using assms build_fields(2)[OF assms(1)]
  by (simp add: seed_step_def try_put_def incr_totals getitem_def Let_def)

subsection \<open>The seeding loop\<close>

lemma built_items_fields:
  assumes "built_items env i xs its"
  shows "map provider its = map snd xs \<and>
         map category its = map (\<lambda>(sc, p). get_default sc ''category'' []) xs \<and>
         map service its = map (\<lambda>(sc, p). get_default sc ''service'' []) xs \<and>
         map pk its = map (\<lambda>(sc, p). p @ ''#'' @ get_default sc ''service'' []) xs \<and>
         map createdAt its = map (clock env) [i..<i + length xs] \<and>
         length its = length xs"
  using assms
proof (induction xs arbitrary: i its)
  case Nil
  then show ?case by simp
next
  case (Cons x xs)
  obtain sc p where x: "x = (sc, p)" by (cases x)
  from Cons.prems obtain it its' where its: "its = it # its'" by (cases its) auto
  from Cons.prems its x have it: "build_service_item sc p (clock env i) = Inr it"
    and rest: "built_items env (Suc i) xs its'"
    by simp_all
  note f = build_fields [OF it]
  from Cons.IH [OF rest] f show ?case
    by (simp add: its x get_default_def upt_rec)
qed

lemma seed_loop_dry:
  assumes "list_all (\<lambda>(sc, p). complete_config sc) xs" and "stats st = totals a b c"
  shows "\<exists>st' its. seed_loop env True i xs st = Inr st' \<and>
           map Inr its =
             map (\<lambda>(k, (sc, p)). build_service_item sc p (clock env k)) (enumerate i xs) \<and>
           stats st' = totals (a + int (length xs)) (b + int (length xs)) c \<and>
           put_calls st' = put_calls st \<and>
           logged st' = logged st @ map dry_run_line its \<and>
           items_by_category st' =
             fold (\<lambda>it d. count_up d (category it)) its (items_by_category st) \<and>
           items_by_provider st' =
             fold (\<lambda>it d. count_up d (provider it)) its (items_by_provider st)"
  using assms
proof (induction xs arbitrary: i st a b c)
  case Nil
  then show ?case by simp
next
  case (Cons x xs)
  obtain sc p where x: "x = (sc, p)" by (cases x)
  from Cons.prems(1) x have "complete_config sc" by simp
  then obtain it where it: "build_service_item sc p (clock env i) = Inr it"
    using build_complete by blast
  define st1 where "st1 = st\<lparr>stats := totals (a + 1) (b + 1) c,
                   items_by_category := count_up (items_by_category st) (category it),
                   items_by_provider := count_up (items_by_provider st) p,
                   logged := logged st @ [dry_run_line it]\<rparr>"
  have step: "seed_step env True i (sc, p) st = Inr st1"
    unfolding st1_def by (rule seed_step_dry [OF it Cons.prems(2)])
  have s1: "stats st1 = totals (a + 1) (b + 1) c" by (simp add: st1_def)
  from Cons.prems(1) have rest: "list_all (\<lambda>(sc, p). complete_config sc) xs" by simp
  from Cons.IH [OF rest s1, of "Suc i"] obtain st' its where
    run: "seed_loop env True (Suc i) xs st1 = Inr st'" and
    its: "map Inr its =
            map (\<lambda>(k, (sc, p)). build_service_item sc p (clock env k)) (enumerate (Suc i) xs)" and
    st: "stats st' = totals (a + 1 + int (length xs)) (b + 1 + int (length xs)) c" and
    pc: "put_calls st' = put_calls st1" and
    lg: "logged st' = logged st1 @ map dry_run_line its" and
    bc: "items_by_category st' =
           fold (\<lambda>it d. count_up d (category it)) its (items_by_category st1)" and
    bp: "items_by_provider st' =
           fold (\<lambda>it d. count_up d (provider it)) its (items_by_provider st1)"
    by blast
  have "seed_loop env True i (x # xs) st = Inr st'"
    using step run x by simp
  moreover have "map Inr (it # its) =
      map (\<lambda>(k, (sc, p)). build_service_item sc p (clock env k)) (enumerate i (x # xs))"
    using its it x by simp
  moreover have "stats st' = totals (a + int (length (x # xs))) (b + int (length (x # xs))) c"
    using st by simp
  moreover have "put_calls st' = put_calls st" using pc by (simp add: st1_def)
  moreover have "logged st' = logged st @ map dry_run_line (it # its)"
    using lg by (simp add: st1_def)
  moreover have "items_by_category st' =
      fold (\<lambda>it d. count_up d (category it)) (it # its) (items_by_category st)"
    using bc by (simp add: st1_def)
  moreover have "items_by_provider st' =
      fold (\<lambda>it d. count_up d (provider it)) (it # its) (items_by_provider st)"
    using bp build_fields(3)[OF it] by (simp add: st1_def)
  ultimately show ?case by blast
qed

lemma seed_loop_real:
  assumes "list_all (\<lambda>(sc, p). complete_config sc) xs" and "stats st = totals a b c"
  shows "\<exists>st' its. seed_loop env False i xs st = Inr st' \<and>
           map Inr its =
             map (\<lambda>(k, (sc, p)). build_service_item sc p (clock env k)) (enumerate i xs) \<and>
           stats st' =
             totals (a + int (length xs))
               (b + int (length (filter (\<lambda>(k, it). put_item env k it = None) (enumerate i its))))
               (c + int (length (filter (\<lambda>(k, it). put_item env k it \<noteq> None) (enumerate i its)))) \<and>
           put_calls st' = put_calls st @ its \<and>
           logged st' = logged st @
             map (\<lambda>(k, it). case put_item env k it of
                                None \<Rightarrow> written_line it | Some e \<Rightarrow> error_line it e)
               (enumerate i its) \<and>
           items_by_category st' =
             fold (\<lambda>it d. count_up d (category it)) its (items_by_category st) \<and>
           items_by_provider st' =
             fold (\<lambda>it d. count_up d (provider it)) its (items_by_provider st)"
  using assms
proof (induction xs arbitrary: i st a b c)
  case Nil
  then show ?case by simp
next
  case (Cons x xs)
  obtain sc p where x: "x = (sc, p)" by (cases x)
  from Cons.prems(1) x have "complete_config sc" by simp
  then obtain it where it: "build_service_item sc p (clock env i) = Inr it"
    using build_complete by blast
  from Cons.prems(1) have rest: "list_all (\<lambda>(sc, p). complete_config sc) xs" by simp
  define b1 where "b1 = (if put_item env i it = None then b + 1 else b)"
  define c1 where "c1 = (if put_item env i it = None then c else c + 1)"
  define line where "line = (case put_item env i it of
                               None \<Rightarrow> written_line it | Some e \<Rightarrow> error_line it e)"
  define st1 where "st1 = st\<lparr>stats := totals (a + 1) b1 c1,
                   items_by_category := count_up (items_by_category st) (category it),
                   items_by_provider := count_up (items_by_provider st) p,
                   logged := logged st @ [line],
                   put_calls := put_calls st @ [it]\<rparr>"
  have step: "seed_step env False i (sc, p) st = Inr st1"
  proof (cases "put_item env i it")
    case None
    then show ?thesis
      using seed_step_written [OF it Cons.prems(2) None]
      by (simp add: st1_def b1_def c1_def line_def)
  next
    case (Some e)
    then show ?thesis
      using seed_step_failed [OF it Cons.prems(2) Some]
      by (simp add: st1_def b1_def c1_def line_def)
  qed
  have s1: "stats st1 = totals (a + 1) b1 c1" by (simp add: st1_def)
  from Cons.IH [OF rest s1, of "Suc i"] obtain st' its where
    run: "seed_loop env False (Suc i) xs st1 = Inr st'" and
    its: "map Inr its =
            map (\<lambda>(k, (sc, p)). build_service_item sc p (clock env k)) (enumerate (Suc i) xs)" and
    st: "stats st' =
           totals (a + 1 + int (length xs))
             (b1 + int (length (filter (\<lambda>(k, it). put_item env k it = None)
                                  (enumerate (Suc i) its))))
             (c1 + int (length (filter (\<lambda>(k, it). put_item env k it \<noteq> None)
                                  (enumerate (Suc i) its))))" and
    pc: "put_calls st' = put_calls st1 @ its" and
    lg: "logged st' = logged st1 @
           map (\<lambda>(k, it). case put_item env k it of
                              None \<Rightarrow> written_line it | Some e \<Rightarrow> error_line it e)
             (enumerate (Suc i) its)" and
    bc: "items_by_category st' =
           fold (\<lambda>it d. count_up d (category it)) its (items_by_category st1)" and
    bp: "items_by_provider st' =
           fold (\<lambda>it d. count_up d (provider it)) its (items_by_provider st1)"
    by blast
  have "seed_loop env False i (x # xs) st = Inr st'"
    using step run x by simp
  moreover have "map Inr (it # its) =
      map (\<lambda>(k, (sc, p)). build_service_item sc p (clock env k)) (enumerate i (x # xs))"
    using its it x by simp
  moreover have "stats st' =
      totals (a + int (length (x # xs)))
        (b + int (length (filter (\<lambda>(k, it). put_item env k it = None)
                            (enumerate i (it # its)))))
        (c + int (length (filter (\<lambda>(k, it). put_item env k it \<noteq> None)
                            (enumerate i (it # its)))))"
    using st by (simp add: b1_def c1_def)
  moreover have "put_calls st' = put_calls st @ (it # its)" using pc by (simp add: st1_def)
  moreover have "logged st' = logged st @
      map (\<lambda>(k, it). case put_item env k it of
                         None \<Rightarrow> written_line it | Some e \<Rightarrow> error_line it e)
        (enumerate i (it # its))"
    using lg by (simp add: st1_def line_def)
  moreover have "items_by_category st' =
      fold (\<lambda>it d. count_up d (category it)) (it # its) (items_by_category st)"
    using bc by (simp add: st1_def)
  moreover have "items_by_provider st' =
      fold (\<lambda>it d. count_up d (provider it)) (it # its) (items_by_provider st)"
    using bp build_fields(3)[OF it] by (simp add: st1_def)
  ultimately show ?case by blast
qed

subsection \<open>Further facts about built items\<close>

lemma build_flags:
  assumes "build_service_item sc p now = Inr it"
  shows "assetsEnabled it = (if service it \<in> ASSETS_ENABLED_SERVICES then ''true'' else ''false'')"
    and "dataDiscoveryEnabled it =
           (if service it \<in> DATA_DISCOVERY_ENABLED_SERVICES then ''true'' else ''false'')"
    and "cspmEnabled it = ''true''"
  using assms
  by (auto simp: build_service_item_def getitem_def Let_def split: option.splits)

lemma built_items_exist:
  assumes "list_all (\<lambda>(sc, p). complete_config sc) xs"
  shows "\<exists>its. built_items env i xs its"
  using assms
proof (induction xs arbitrary: i)
  case Nil
  then show ?case by simp
next
  case (Cons x xs)
  obtain sc p where x: "x = (sc, p)" by (cases x)
  from Cons.prems x obtain it where it: "build_service_item sc p (clock env i) = Inr it"
    using build_complete [of sc p "clock env i"] by auto
  from Cons.prems have "list_all (\<lambda>(sc, p). complete_config sc) xs" by simp
  from Cons.IH [OF this, of "Suc i"] obtain its where "built_items env (Suc i) xs its" by blast
  with it x have "built_items env i (x # xs) (it # its)" by simp
  then show ?case by blast
qed

lemma static_member:
  assumes "sc \<in> set AWS_SERVICES \<union> set M365_SERVICES"
  shows "complete_config sc"
proof -
  from assms obtain p where "(sc, p) \<in> set all_services"
    by (auto simp: all_services_def)
  with static_complete show ?thesis
    by (auto simp: list_all_iff)
qed

lemma zip_provider_name:
  "zip (map snd xs) (map (\<lambda>(sc, p). g sc) xs) = map (\<lambda>(sc, p). (p, g sc)) xs"
  by (induction xs) auto

lemma map_pair_zip: "map (\<lambda>x. (f x, g x)) xs = zip (map f xs) (map g xs)"
  by (induction xs) simp_all

subsection \<open>The whole run\<close>

lemma provider_lines:
  "count_lines [(''aws'', 83), (''m365'', 4)] = [''  aws: 83'', ''  m365: 4'']"
  by code_simp

lemma category_lines:
  "count_lines [(''storage'', 10), (''database'', 9), (''compute'', 10), (''security'', 15),
      (''networking'', 9), (''ai_ml'', 3), (''analytics'', 7), (''integration'', 9),
      (''management'', 13), (''identity'', 1), (''collaboration'', 1)] =
   [''  ai_ml: 3'', ''  analytics: 7'', ''  collaboration: 1'', ''  compute: 10'',
    ''  database: 9'', ''  identity: 1'', ''  integration: 9'', ''  management: 13'',
    ''  networking: 9'', ''  security: 15'', ''  storage: 10'']"
  by code_simp

lemma assets_line:
  "''  Assets: '' @ str_int (int (length (sorted_list_of_set ASSETS_ENABLED_SERVICES))) @
     '' services ('' @ join '', '' (sorted_list_of_set ASSETS_ENABLED_SERVICES) @ '')'' =
   ''  Assets: 8 services (bedrock, ec2, ecs, eks, entraid, iam, intune, lambda)''"
  by code_simp

lemma data_discovery_line:
  "''  Data Discovery: '' @
     str_int (int (length (sorted_list_of_set DATA_DISCOVERY_ENABLED_SERVICES))) @
     '' services ('' @ join '', '' (sorted_list_of_set DATA_DISCOVERY_ENABLED_SERVICES) @ '')'' =
   ''  Data Discovery: 10 services (dynamodb, ec2, efs, fsx, neptune, onedrive, rds, redshift, s3, sharepoint)''"
  by code_simp

lemma seed_summary_static:
  assumes "stats st = totals a b c"
    and "items_by_provider st = [(''aws'', 83), (''m365'', 4)]"
    and "items_by_category st =
           [(''storage'', 10), (''database'', 9), (''compute'', 10), (''security'', 15),
            (''networking'', 9), (''ai_ml'', 3), (''analytics'', 7), (''integration'', 9),
            (''management'', 13), (''identity'', 1), (''collaboration'', 1)]"
  shows "seed_summary st = Inr (summary_text a b c)"
proof -
  have g: "getitem (stats st) ''processed'' = Inr a" "getitem (stats st) ''written'' = Inr b"
    "getitem (stats st) ''errors'' = Inr c"
    using assms(1) by (simp_all add: getitem_def)
  show ?thesis
    unfolding seed_summary_def g assms(2,3) Let_def sum.case provider_lines category_lines
      assets_line data_discovery_line
    by (simp only: append.simps)
qed



lemma fold_count_up_map:
  "fold (\<lambda>it d. count_up d (f it)) its d0 = fold (\<lambda>k d. count_up d k) (map f its) d0"
  by (induction its arbitrary: d0) simp_all

lemma run_dry:
  "\<exists>r its. seed_services env environment True = Inr r \<and>
       built_items env 0 all_services its \<and>
       returned r = totals 87 87 0 \<and>
       writes r = [] \<and>
       log_lines r = (INFO, ''[DRY RUN] Seeding services to table: master-integrations'') #
                     map dry_run_line its \<and>
       printed r = summary_text 87 87 0"
proof -
  define st0 where "st0 = \<lparr> stats = totals 0 0 0,
                  items_by_category = [],
                  items_by_provider = [],
                  logged = [(INFO, ''[DRY RUN] Seeding services to table: master-integrations'')],
                  put_calls = [] \<rparr>"
  have s0: "stats st0 = totals 0 0 0" by (simp add: st0_def)
  from seed_loop_dry [OF static_complete s0, of env 0] obtain st' its where
    run: "seed_loop env True 0 all_services st0 = Inr st'" and
    its: "built_items env 0 all_services its" and
    st: "stats st' = totals (0 + int (length all_services)) (0 + int (length all_services)) 0" and
    pc: "put_calls st' = put_calls st0" and
    lg: "logged st' = logged st0 @ map dry_run_line its" and
    bc: "items_by_category st' =
           fold (\<lambda>it d. count_up d (category it)) its (items_by_category st0)" and
    bp: "items_by_provider st' =
           fold (\<lambda>it d. count_up d (provider it)) its (items_by_provider st0)"
    by blast
  note f = built_items_fields [OF its]
  have st87: "stats st' = totals 87 87 0" using st by (simp add: static_lengths)
  have bp': "items_by_provider st' = [(''aws'', 83), (''m365'', 4)]"
  proof -
    have "items_by_provider st' = fold (\<lambda>k d. count_up d k) (map provider its) []"
      unfolding bp fold_count_up_map [where f = provider] by (simp add: st0_def)
    also have "map provider its = map snd all_services" using f by simp
    finally show ?thesis by (simp only: static_by_provider)
  qed
  have bc': "items_by_category st' =
           [(''storage'', 10), (''database'', 9), (''compute'', 10), (''security'', 15),
            (''networking'', 9), (''ai_ml'', 3), (''analytics'', 7), (''integration'', 9),
            (''management'', 13), (''identity'', 1), (''collaboration'', 1)]"
  proof -
    have "items_by_category st' = fold (\<lambda>k d. count_up d k) (map category its) []"
      unfolding bc fold_count_up_map [where f = category] by (simp add: st0_def)
    also have "map category its = map (\<lambda>(sc, p). get_default sc ''category'' []) all_services"
      using f by simp
    finally show ?thesis by (simp only: static_by_category)
  qed
  have sm: "seed_summary st' = Inr (summary_text 87 87 0)"
    by (rule seed_summary_static [OF st87 bp' bc'])
  have "seed_services env environment True =
          Inr \<lparr> returned = stats st', printed = summary_text 87 87 0,
                log_lines = logged st', writes = put_calls st' \<rparr>"
  proof -
    have hdr: "''[DRY RUN] '' @ ''Seeding services to table: '' @ ''master-integrations'' =
               ''[DRY RUN] Seeding services to table: master-integrations''"
      by simp
    show ?thesis
      using run sm
      by (simp add: seed_services_def get_table_name_def st0_def hdr del: append.simps)
  qed
  moreover have "logged st' =
      (INFO, ''[DRY RUN] Seeding services to table: master-integrations'') # map dry_run_line its"
    using lg by (simp add: st0_def)
  moreover have "put_calls st' = []" using pc by (simp add: st0_def)
  ultimately show ?thesis
    using its st87 by (intro exI [of _ "\<lparr> returned = stats st', printed = summary_text 87 87 0,
                log_lines = logged st', writes = put_calls st' \<rparr>"] exI [of _ its])
      (simp del: append.simps)
qed

lemma run_real:
  assumes ok: "open_table env (get_table_name environment) = None"
  shows "\<exists>r its. seed_services env environment False = Inr r \<and>
       built_items env 0 all_services its \<and>
       returned r =
         totals 87
           (int (length (filter (\<lambda>(k, it). put_item env k it = None) (enumerate 0 its))))
           (int (length (filter (\<lambda>(k, it). put_item env k it \<noteq> None) (enumerate 0 its)))) \<and>
       writes r = its \<and>
       log_lines r = (INFO, ''Seeding services to table: master-integrations'') #
                     map (\<lambda>(k, it). case put_item env k it of
                                        None \<Rightarrow> written_line it | Some e \<Rightarrow> error_line it e)
                       (enumerate 0 its) \<and>
       printed r =
         summary_text 87
           (int (length (filter (\<lambda>(k, it). put_item env k it = None) (enumerate 0 its))))
           (int (length (filter (\<lambda>(k, it). put_item env k it \<noteq> None) (enumerate 0 its))))"
proof -
  define st0 where "st0 = \<lparr> stats = totals 0 0 0,
                  items_by_category = [],
                  items_by_provider = [],
                  logged = [(INFO, ''Seeding services to table: master-integrations'')],
                  put_calls = [] \<rparr>"
  have s0: "stats st0 = totals 0 0 0" by (simp add: st0_def)
  from seed_loop_real [OF static_complete s0, of env 0] obtain st' its where
    run: "seed_loop env False 0 all_services st0 = Inr st'" and
    its: "built_items env 0 all_services its" and
    st: "stats st' =
           totals (0 + int (length all_services))
             (0 + int (length (filter (\<lambda>(k, it). put_item env k it = None) (enumerate 0 its))))
             (0 + int (length (filter (\<lambda>(k, it). put_item env k it \<noteq> None) (enumerate 0 its))))" and
    pc: "put_calls st' = put_calls st0 @ its" and
    lg: "logged st' = logged st0 @
           map (\<lambda>(k, it). case put_item env k it of
                              None \<Rightarrow> written_line it | Some e \<Rightarrow> error_line it e)
             (enumerate 0 its)" and
    bc: "items_by_category st' =
           fold (\<lambda>it d. count_up d (category it)) its (items_by_category st0)" and
    bp: "items_by_provider st' =
           fold (\<lambda>it d. count_up d (provider it)) its (items_by_provider st0)"
    by blast
  define w where "w = int (length (filter (\<lambda>(k, it). put_item env k it = None) (enumerate 0 its)))"
  define e where "e = int (length (filter (\<lambda>(k, it). put_item env k it \<noteq> None) (enumerate 0 its)))"
  note f = built_items_fields [OF its]
  have st87: "stats st' = totals 87 w e" using st by (simp add: static_lengths w_def e_def)
  have bp': "items_by_provider st' = [(''aws'', 83), (''m365'', 4)]"
  proof -
    have "items_by_provider st' = fold (\<lambda>k d. count_up d k) (map provider its) []"
      unfolding bp fold_count_up_map [where f = provider] by (simp add: st0_def)
    also have "map provider its = map snd all_services" using f by simp
    finally show ?thesis by (simp only: static_by_provider)
  qed
  have bc': "items_by_category st' =
           [(''storage'', 10), (''database'', 9), (''compute'', 10), (''security'', 15),
            (''networking'', 9), (''ai_ml'', 3), (''analytics'', 7), (''integration'', 9),
            (''management'', 13), (''identity'', 1), (''collaboration'', 1)]"
  proof -
    have "items_by_category st' = fold (\<lambda>k d. count_up d k) (map category its) []"
      unfolding bc fold_count_up_map [where f = category] by (simp add: st0_def)
    also have "map category its = map (\<lambda>(sc, p). get_default sc ''category'' []) all_services"
      using f by simp
    finally show ?thesis by (simp only: static_by_category)
  qed
  have sm: "seed_summary st' = Inr (summary_text 87 w e)"
    by (rule seed_summary_static [OF st87 bp' bc'])
  have "seed_services env environment False =
          Inr \<lparr> returned = stats st', printed = summary_text 87 w e,
                log_lines = logged st', writes = put_calls st' \<rparr>"
  proof -
    have hdr: "[] @ ''Seeding services to table: '' @ ''master-integrations'' =
               ''Seeding services to table: master-integrations''"
      by simp
    show ?thesis
      using run sm ok [unfolded get_table_name_def]
      by (simp add: seed_services_def get_table_name_def st0_def hdr del: append.simps)
  qed
  moreover have "logged st' =
      (INFO, ''Seeding services to table: master-integrations'') #
      map (\<lambda>(k, it). case put_item env k it of
                         None \<Rightarrow> written_line it | Some e \<Rightarrow> error_line it e)
        (enumerate 0 its)"
    using lg by (simp add: st0_def)
  moreover have "put_calls st' = its" using pc by (simp add: st0_def)
  ultimately show ?thesis
    using its st87 unfolding w_def e_def
    by (intro exI [of _ "\<lparr> returned = stats st', printed = summary_text 87 w e,
                log_lines = logged st', writes = put_calls st' \<rparr>"] exI [of _ its])
      (simp add: w_def e_def del: append.simps)
qed

lemma run_no_handle:
  assumes "open_table env (get_table_name environment) = Some e"
  shows "seed_services env environment False = Inl e"
  using assms by (simp add: seed_services_def Let_def)

lemma run_returns:
  assumes "seed_services env environment dry_run = Inr r"
  shows "dry_run \<or> open_table env (get_table_name environment) = None"
proof (cases "dry_run \<or> open_table env (get_table_name environment) = None")
  case True
  then show ?thesis .
next
  case False
  then obtain e where "open_table env (get_table_name environment) = Some e" and "\<not> dry_run"
    by auto
  with run_no_handle [of env environment e] assms show ?thesis by simp
qed

lemma sample_handles:
  "open_table env_ok (get_table_name environment) = None"
  "open_table env_first_fails (get_table_name environment) = None"
  "open_table env_no_handle (get_table_name environment) =
     Some (StorageError ''You must specify a region.'')"
  "open_table verify_env_second_fails (get_table_name environment) = None"
  by (simp_all add: open_table_def env_ok_def env_first_fails_def env_no_handle_def
        verify_env_second_fails_def)

lemma outcome_counts:
  "int (length (filter (\<lambda>(k, it). put_item env k it = None) (enumerate i its))) +
   int (length (filter (\<lambda>(k, it). put_item env k it \<noteq> None) (enumerate i its))) =
   int (length its)"
proof -
  have "(\<lambda>(k, it). put_item env k it \<noteq> None) =
        (\<lambda>x. \<not> (case x of (k, it) \<Rightarrow> put_item env k it = None))"
    by (simp add: fun_eq_iff split_def)
  then show ?thesis
    using sum_length_filter_compl [of "\<lambda>(k, it). put_item env k it = None" "enumerate i its"]
    by simp
qed

lemma filter_enumerate_index:
  "length (filter (\<lambda>(k, it). P k) (enumerate i its)) = length (filter P [i..<i + length its])"
proof (induction its arbitrary: i)
  case Nil
  then show ?case by simp
next
  case (Cons x its)
  have "[i..<i + length (x # its)] = i # [Suc i..<Suc i + length its]"
    by (subst upt_rec) simp
  with Cons.IH [of "Suc i"] show ?case by simp
qed

lemma map_enumerate_snd: "map (\<lambda>(k, x). f x) (enumerate n xs) = map f xs"
  by (induction xs arbitrary: n) simp_all

lemma first_fails_counts:
  assumes "length its = 87"
  shows "length (filter (\<lambda>(k, it). put_item env_first_fails k it = None) (enumerate 0 its)) = 86"
    and "length (filter (\<lambda>(k, it). put_item env_first_fails k it \<noteq> None) (enumerate 0 its)) = 1"
proof -
  have a: "length (filter (\<lambda>k. k \<noteq> 0) [0..<0 + 87]) = 86" by code_simp
  have b: "length (filter (\<lambda>k. k = 0) [0..<0 + 87]) = 1" by code_simp
  have "(\<lambda>(k, it). put_item env_first_fails k it = None) = (\<lambda>(k, it :: item). k \<noteq> 0)"
    by (simp add: env_first_fails_def fun_eq_iff)
  then show "length (filter (\<lambda>(k, it). put_item env_first_fails k it = None) (enumerate 0 its)) = 86"
    using filter_enumerate_index [of "\<lambda>k. k \<noteq> 0" 0 its] a assms by simp
  have "(\<lambda>(k, it). put_item env_first_fails k it \<noteq> None) = (\<lambda>(k, it :: item). k = 0)"
    by (simp add: env_first_fails_def fun_eq_iff)
  then show "length (filter (\<lambda>(k, it). put_item env_first_fails k it \<noteq> None) (enumerate 0 its)) = 1"
    using filter_enumerate_index [of "\<lambda>k. k = 0" 0 its] b assms by simp
qed

subsection \<open>The verification pass\<close>

lemma start_key_Suc:
  assumes "start_key scan (Suc n) = Some key"
  shows "\<exists>k. key = Some k"
proof (cases "start_key scan n")
  case None
  with assms show ?thesis by simp
next
  case (Some key0)
  show ?thesis
  proof (cases "scan n key0")
    case (Inl e)
    with assms Some show ?thesis by simp
  next
    case (Inr resp)
    show ?thesis
    proof (cases "LastEvaluatedKey resp")
      case None
      with assms Some Inr show ?thesis by simp
    next
      case (Some k)
      with assms \<open>start_key scan n = Some key0\<close> Inr have "key = Some k" by simp
      then show ?thesis by blast
    qed
  qed
qed

lemma scan_all_reaches:
  assumes "start_key scan (Suc n) = Some (Some k)"
  shows "\<exists>resp rows. LastEvaluatedKey resp = Some k \<and>
           scan_all scan = scan_rest scan (Suc n) resp rows"
  using assms
proof (induction n arbitrary: k)
  case 0
  then obtain resp where "scan 0 None = Inr resp" "LastEvaluatedKey resp = Some k"
    by (auto split: sum.splits option.splits)
  then show ?case by (auto simp: scan_all_def)
next
  case (Suc n)
  from Suc.prems obtain key resp' where
    sk: "start_key scan (Suc n) = Some key" and
    sc: "scan (Suc n) key = Inr resp'" and
    lk: "LastEvaluatedKey resp' = Some k"
    by (auto simp del: start_key.simps simp add: start_key.simps(2) [of scan "Suc n"]
        split: sum.splits option.splits)
  from start_key_Suc [OF sk] obtain k' where key: "key = Some k'" by blast
  from Suc.IH [of k'] sk key obtain resp rows where
    l: "LastEvaluatedKey resp = Some k'" and
    a: "scan_all scan = scan_rest scan (Suc n) resp rows"
    by blast
  have "scan_rest scan (Suc n) resp rows =
        scan_rest scan (Suc (Suc n)) resp' (rows @ response_items resp')"
    using l sc key by (subst scan_rest.simps) simp
  with a lk show ?case by auto
qed

lemma scan_all_fails:
  assumes "start_key scan n = Some key" and "scan n key = Inl e"
  shows "scan_all scan = Some (Inl e, Suc n)"
proof (cases n)
  case 0
  with assms show ?thesis by (simp add: scan_all_def)
next
  case (Suc m)
  from start_key_Suc [of scan m key] assms(1) Suc obtain k where key: "key = Some k"
    by blast
  from scan_all_reaches [of scan m k] assms(1) Suc key obtain resp rows where
    l: "LastEvaluatedKey resp = Some k" and
    a: "scan_all scan = scan_rest scan (Suc m) resp rows"
    by blast
  have "scan_rest scan (Suc m) resp rows = Some (Inl e, Suc (Suc m))"
    using l assms(2) key Suc by (subst scan_rest.simps) simp
  with a Suc show ?thesis by simp
qed

section \<open>The claims\<close>

text \<open>
  C8. The storage table name is a fixed literal: for every environment argument the
  table-name function returns the same constant string, whatever the argument.
\<close>

theorem table_name_fixed:
  "get_table_name environment = ''master-integrations'' \<and>
   get_table_name environment = get_table_name environment'"
  by (simp add: get_table_name_def)

text \<open>
  C1. For every service definition in either static list, the item built from it (for any
  provider and at any time) has \<open>cspmEnabled\<close> equal to \<open>"true"\<close>, has \<open>assetsEnabled\<close>
  equal to \<open>"true"\<close> exactly when the definition's service name is in
  \<open>ASSETS_ENABLED_SERVICES\<close>, and has \<open>dataDiscoveryEnabled\<close> equal to \<open>"true"\<close> exactly
  when the name is in \<open>DATA_DISCOVERY_ENABLED_SERVICES\<close>.
\<close>

theorem flags_follow_static_sets:
  assumes "sc \<in> set AWS_SERVICES \<union> set M365_SERVICES"
  shows "\<exists>it name. build_service_item sc p now = Inr it \<and>
           map_of sc ''service'' = Some name \<and>
           cspmEnabled it = ''true'' \<and>
           (assetsEnabled it = ''true'') = (name \<in> ASSETS_ENABLED_SERVICES) \<and>
           (dataDiscoveryEnabled it = ''true'') = (name \<in> DATA_DISCOVERY_ENABLED_SERVICES)"
  using static_member [OF assms]
  by (auto simp: build_service_item_def getitem_def Let_def)

text \<open>The first AWS entry, \<open>s3\<close>: CSPM and data discovery, no assets.\<close>

theorem flags_follow_static_sets_witness:
  "hd AWS_SERVICES \<in> set AWS_SERVICES \<union> set M365_SERVICES \<and>
   (\<exists>it. build_service_item (hd AWS_SERVICES) ''aws'' ''2024-01-01T00:00:00+00:00'' = Inr it \<and>
         map_of (hd AWS_SERVICES) ''service'' = Some ''s3'' \<and>
         cspmEnabled it = ''true'' \<and> assetsEnabled it = ''false'' \<and>
         dataDiscoveryEnabled it = ''true'')"
proof -
  have m: "hd AWS_SERVICES \<in> set AWS_SERVICES \<union> set M365_SERVICES"
    by (simp add: AWS_SERVICES_def)
  have n: "map_of (hd AWS_SERVICES) ''service'' = Some ''s3''"
    by (simp add: AWS_SERVICES_def)
  from flags_follow_static_sets [OF m, of "''aws''" "''2024-01-01T00:00:00+00:00''"]
  obtain it name where
    b: "build_service_item (hd AWS_SERVICES) ''aws'' ''2024-01-01T00:00:00+00:00'' = Inr it" and
    nm: "map_of (hd AWS_SERVICES) ''service'' = Some name" and
    a: "cspmEnabled it = ''true''" and
    bb: "(assetsEnabled it = ''true'') = (name \<in> ASSETS_ENABLED_SERVICES)" and
    c: "(dataDiscoveryEnabled it = ''true'') = (name \<in> DATA_DISCOVERY_ENABLED_SERVICES)"
    by blast
  from n nm have name: "name = ''s3''" by simp
  from bb name have "assetsEnabled it \<noteq> ''true''"
    by (simp add: ASSETS_ENABLED_SERVICES_def)
  with build_flags [OF b] have "assetsEnabled it = ''false''"
    by (simp split: if_splits)
  moreover from c name have "dataDiscoveryEnabled it = ''true''"
    by (simp add: DATA_DISCOVERY_ENABLED_SERVICES_def)
  ultimately show ?thesis using m n b a by blast
qed

text \<open>
  C2. \<open>build_service_item\<close> is deterministic apart from its timestamps: in a built item
  \<open>createdAt\<close> and \<open>updatedAt\<close> both equal the time of the call, hence each other, and the
  item built from the same definition and provider at any other time is the same item
  with only these two fields changed.
\<close>

theorem build_deterministic_up_to_time:
  assumes "build_service_item sc p now = Inr it"
  shows "createdAt it = now \<and> updatedAt it = now \<and> createdAt it = updatedAt it \<and>
         (\<forall>now'. build_service_item sc p now' =
                   Inr (it\<lparr>createdAt := now', updatedAt := now'\<rparr>))"
  using assms
  by (auto simp: build_service_item_def getitem_def Let_def split: option.splits)

text \<open>The \<open>s3\<close> entry built at two different times.\<close>

theorem build_deterministic_up_to_time_witness:
  "\<exists>it. build_service_item (hd AWS_SERVICES) ''aws'' ''2024-01-01T00:00:00+00:00'' = Inr it \<and>
        createdAt it = ''2024-01-01T00:00:00+00:00'' \<and>
        updatedAt it = ''2024-01-01T00:00:00+00:00'' \<and>
        build_service_item (hd AWS_SERVICES) ''aws'' ''2025-06-30T12:00:00+00:00'' =
          Inr (it\<lparr>createdAt := ''2025-06-30T12:00:00+00:00'',
                  updatedAt := ''2025-06-30T12:00:00+00:00''\<rparr>)"
proof -
  have "complete_config (hd AWS_SERVICES)" by (simp add: AWS_SERVICES_def)
  then obtain it where
    b: "build_service_item (hd AWS_SERVICES) ''aws'' ''2024-01-01T00:00:00+00:00'' = Inr it"
    using build_complete by blast
  from build_deterministic_up_to_time [OF b] b show ?thesis by blast
qed

text \<open>
  C3. Record key uniqueness: over the concatenation of both static lists (AWS entries with
  provider \<open>aws\<close>, then M365 entries with provider \<open>m365\<close>), every entry builds, no two
  built items share the pair of provider and service name, and no two share the key
  \<open>pk\<close>, which is provider, \<open>#\<close> and name.
\<close>

theorem record_keys_unique:
  "\<exists>its. built_items env 0 all_services its \<and>
         length its = length AWS_SERVICES + length M365_SERVICES \<and>
         distinct (map (\<lambda>it. (provider it, service it)) its) \<and>
         distinct (map pk its)"
proof -
  from built_items_exist [OF static_complete] obtain its where
    its: "built_items env 0 all_services its" by blast
  note f = built_items_fields [OF its]
  have "map (\<lambda>it. (provider it, service it)) its =
          zip (map snd all_services)
            (map (\<lambda>(sc, p). get_default sc ''service'' []) all_services)"
    using f by (simp add: map_pair_zip)
  then have "distinct (map (\<lambda>it. (provider it, service it)) its)"
    using static_names by (simp add: zip_provider_name)
  moreover have "distinct (map pk its)" using f static_pks by simp
  moreover have "length its = length AWS_SERVICES + length M365_SERVICES"
    using f by (simp add: all_services_def)
  ultimately show ?thesis using its by blast
qed

text \<open>
  C10, as stated, fails: a real run whose library raises when asked for the table handle
  leaves \<open>seed_services\<close> before the loop; it processes no entry and returns no count.
\<close>

theorem real_run_without_handle_returns_nothing:
  "seed_services env_no_handle ''dev'' False = Inl (StorageError ''You must specify a region.'')"
  by (rule run_no_handle [OF sample_handles(3)])

text \<open>
  C10, amended. Every dry run, and every real run that obtains the table handle, whatever
  the table answers afterwards, returns, and it processes exactly the entries of the two
  static lists: the AWS entries in list order with provider \<open>aws\<close>, then the M365 entries
  in list order with provider \<open>m365\<close>. The per-entry log lines, and in a real run the
  items given to \<open>put_item\<close>, are those of the items built from these entries, in this
  order; the returned \<open>processed\<close> count is the sum of the two list lengths,
  83 + 4 = 87.
\<close>

theorem seed_processes_all_entries:
  assumes "dry_run \<or> open_table env (get_table_name environment) = None"
  shows "\<exists>r its. seed_services env environment dry_run = Inr r \<and>
       built_items env 0
         (map (\<lambda>sc. (sc, ''aws'')) AWS_SERVICES @ map (\<lambda>sc. (sc, ''m365'')) M365_SERVICES) its \<and>
       tl (log_lines r) =
         map (\<lambda>(k, it). if dry_run then dry_run_line it
                         else (case put_item env k it of
                                 None \<Rightarrow> written_line it | Some e \<Rightarrow> error_line it e))
           (enumerate 0 its) \<and>
       writes r = (if dry_run then [] else its) \<and>
       length its = length AWS_SERVICES + length M365_SERVICES \<and>
       length AWS_SERVICES = 83 \<and> length M365_SERVICES = 4 \<and>
       map_of (returned r) ''processed'' = Some 87"
proof (cases dry_run)
  case True
  from run_dry [of env environment] obtain r its where
    r: "seed_services env environment True = Inr r" and
    its: "built_items env 0 all_services its" and
    ret: "returned r = totals 87 87 0" and
    wr: "writes r = []" and
    lg: "log_lines r = (INFO, ''[DRY RUN] Seeding services to table: master-integrations'') #
                       map dry_run_line its"
    by blast
  have "map dry_run_line its = map (\<lambda>(k, it). dry_run_line it) (enumerate 0 its)"
    by (simp add: map_enumerate_snd)
  with lg have "tl (log_lines r) = map (\<lambda>(k, it). dry_run_line it) (enumerate 0 its)"
    by simp
  moreover have "length its = length AWS_SERVICES + length M365_SERVICES"
    using built_items_fields [OF its] by (simp add: all_services_def)
  ultimately show ?thesis
    using True r its ret wr static_lengths(1,2)
    by (intro exI [of _ r] exI [of _ its]) (simp add: all_services_def)
next
  case False
  with assms have ok: "open_table env (get_table_name environment) = None" by simp
  from run_real [OF ok] obtain r its where
    r: "seed_services env environment False = Inr r" and
    its: "built_items env 0 all_services its" and
    ret: "map_of (returned r) ''processed'' = Some 87" and
    wr: "writes r = its" and
    lg: "log_lines r = (INFO, ''Seeding services to table: master-integrations'') #
                     map (\<lambda>(k, it). case put_item env k it of
                                        None \<Rightarrow> written_line it | Some e \<Rightarrow> error_line it e)
                       (enumerate 0 its)"
    by fastforce
  have "length its = length AWS_SERVICES + length M365_SERVICES"
    using built_items_fields [OF its] by (simp add: all_services_def)
  then show ?thesis
    using False r its ret wr lg static_lengths(1,2)
    by (intro exI [of _ r] exI [of _ its]) (simp add: all_services_def)
qed

text \<open>A real run on a table whose first write raises: 87 entries processed, 87 writes attempted.\<close>

theorem seed_processes_all_entries_witness:
  "open_table env_first_fails (get_table_name ''dev'') = None \<and>
   (\<exists>r. seed_services env_first_fails ''dev'' False = Inr r \<and>
        length (writes r) = 87 \<and> map_of (returned r) ''processed'' = Some 87)"
proof -
  have ok: "False \<or> open_table env_first_fails (get_table_name ''dev'') = None"
    by (simp add: sample_handles)
  from seed_processes_all_entries [OF ok] obtain r its where
    "seed_services env_first_fails ''dev'' False = Inr r" and
    "writes r = (if False then [] else its)" and
    "length its = length AWS_SERVICES + length M365_SERVICES" and
    "map_of (returned r) ''processed'' = Some 87"
    by blast
  then show ?thesis
    by (intro conjI exI [of _ r]) (simp_all add: sample_handles static_lengths)
qed

text \<open>
  C9. Accounting invariant: every run that returns counts, dry or real and whatever the
  outcomes of the writes, returns them with \<open>processed = written + errors\<close>; every dry
  run and every real run that obtains the table handle does return counts; a dry run
  returns \<open>errors = 0\<close>.
\<close>

theorem seed_accounting:
  "(dry_run \<or> open_table env (get_table_name environment) = None \<longrightarrow>
      (\<exists>r p w e. seed_services env environment dry_run = Inr r \<and>
         returned r = totals p w e \<and> p = w + e)) \<and>
   (\<exists>r p w. seed_services env environment True = Inr r \<and> returned r = totals p w 0) \<and>
   (\<forall>r. seed_services env environment dry_run = Inr r \<longrightarrow>
      (\<exists>p w e. returned r = totals p w e \<and> p = w + e))"
proof -
  from run_dry [of env environment] obtain rd where
    rd: "seed_services env environment True = Inr rd" and
    retd: "returned rd = totals 87 87 0"
    by blast
  have first: "\<exists>r p w e. seed_services env environment dry_run = Inr r \<and>
       returned r = totals p w e \<and> p = w + e"
    if h: "dry_run \<or> open_table env (get_table_name environment) = None"
  proof (cases dry_run)
    case True
    with rd retd show ?thesis by simp
  next
    case False
    with h have ok: "open_table env (get_table_name environment) = None" by simp
    from run_real [OF ok] obtain rr its where
      rr: "seed_services env environment False = Inr rr" and
      its: "built_items env 0 all_services its" and
      retr: "returned rr =
           totals 87
             (int (length (filter (\<lambda>(k, it). put_item env k it = None) (enumerate 0 its))))
             (int (length (filter (\<lambda>(k, it). put_item env k it \<noteq> None) (enumerate 0 its))))"
      by blast
    have len: "int (length its) = 87"
      using built_items_fields [OF its] by (simp add: static_lengths)
    from False rr retr outcome_counts [of env 0 its] len show ?thesis by simp
  qed
  have second: "\<exists>r p w. seed_services env environment True = Inr r \<and> returned r = totals p w 0"
    using rd retd by simp
  have third: "\<exists>p w e. returned r = totals p w e \<and> p = w + e"
    if r: "seed_services env environment dry_run = Inr r" for r
    using first [OF run_returns [OF r]] r by auto
  from first second third show ?thesis by blast
qed

text \<open>A real run on a table whose first write raises returns counts that add up.\<close>

theorem seed_accounting_witness:
  "open_table env_first_fails (get_table_name ''dev'') = None \<and>
   (\<exists>r p w e. seed_services env_first_fails ''dev'' False = Inr r \<and>
      returned r = totals p w e \<and> p = w + e)"
  using seed_accounting [of False env_first_fails "''dev''"]
  by (simp add: sample_handles)

text \<open>
  C5. In a real run that has obtained the table handle, for every sequence of write
  outcomes: the run returns; all 87 built items are given to \<open>put_item\<close>, in order, so a
  failed write stops none of the later ones; each entry leaves one log line, \<open>Written\<close>
  or \<open>Error writing\<close> by its outcome; the returned \<open>errors\<close> count is the number of
  writes that raised and the returned \<open>written\<close> count the number that did not, so a
  failed write adds one to \<open>errors\<close> and nothing to \<open>written\<close>.
\<close>

theorem failed_write_counted_run_continues:
  assumes "open_table env (get_table_name environment) = None"
  shows "\<exists>r its. seed_services env environment False = Inr r \<and>
       built_items env 0 all_services its \<and>
       length its = 87 \<and>
       writes r = its \<and>
       tl (log_lines r) =
         map (\<lambda>(k, it). case put_item env k it of
                            None \<Rightarrow> written_line it | Some e \<Rightarrow> error_line it e)
           (enumerate 0 its) \<and>
       returned r =
         totals 87
           (int (length (filter (\<lambda>(k, it). put_item env k it = None) (enumerate 0 its))))
           (int (length (filter (\<lambda>(k, it). put_item env k it \<noteq> None) (enumerate 0 its))))"
proof -
  from run_real [OF assms] obtain r its where
    r: "seed_services env environment False = Inr r" and
    its: "built_items env 0 all_services its" and
    retr: "returned r =
         totals 87
           (int (length (filter (\<lambda>(k, it). put_item env k it = None) (enumerate 0 its))))
           (int (length (filter (\<lambda>(k, it). put_item env k it \<noteq> None) (enumerate 0 its))))" and
    wr: "writes r = its" and
    lg: "log_lines r = (INFO, ''Seeding services to table: master-integrations'') #
                     map (\<lambda>(k, it). case put_item env k it of
                                        None \<Rightarrow> written_line it | Some e \<Rightarrow> error_line it e)
                       (enumerate 0 its)"
    by blast
  have "length its = 87"
    using built_items_fields [OF its] by (simp add: static_lengths)
  with r its retr wr lg show ?thesis
    by (intro exI [of _ r] exI [of _ its]) simp
qed

text \<open>The first write raises: 87 writes attempted, 86 counted as written, one as an error.\<close>

theorem failed_write_counted_run_continues_witness:
  "open_table env_first_fails (get_table_name ''dev'') = None \<and>
   (\<exists>r. seed_services env_first_fails ''dev'' False = Inr r \<and>
        length (writes r) = 87 \<and> returned r = totals 87 86 1)"
proof -
  have ok: "open_table env_first_fails (get_table_name ''dev'') = None"
    by (rule sample_handles(2))
  from failed_write_counted_run_continues [OF ok] obtain r its where
    r: "seed_services env_first_fails ''dev'' False = Inr r" and
    len: "length its = 87" and
    wr: "writes r = its" and
    ret: "returned r =
         totals 87
           (int (length (filter (\<lambda>(k, it). put_item env_first_fails k it = None)
                           (enumerate 0 its))))
           (int (length (filter (\<lambda>(k, it). put_item env_first_fails k it \<noteq> None)
                           (enumerate 0 its))))"
    by blast
  have "returned r = totals 87 86 1"
    using ret unfolding first_fails_counts [OF len] by simp
  with ok r len wr show ?thesis by (intro conjI exI [of _ r]) simp_all
qed

text \<open>
  C4, as stated, fails: on a table whose first write raises, the dry run returns
  \<open>written = 87\<close> and the real run \<open>written = 86\<close> (with \<open>errors = 1\<close>).
\<close>

theorem dry_run_counts_differ_from_failing_run:
  "map_sum id returned (seed_services env_first_fails ''dev'' True) = Inr (totals 87 87 0) \<and>
   map_sum id returned (seed_services env_first_fails ''dev'' False) = Inr (totals 87 86 1)"
proof -
  from run_dry [of env_first_fails "''dev''"] have
    "map_sum id returned (seed_services env_first_fails ''dev'' True) = Inr (totals 87 87 0)"
    by auto
  moreover
  from run_real [OF sample_handles(2), of "''dev''"] obtain r its where
    r: "seed_services env_first_fails ''dev'' False = Inr r" and
    its: "built_items env_first_fails 0 all_services its" and
    ret: "returned r =
         totals 87
           (int (length (filter (\<lambda>(k, it). put_item env_first_fails k it = None)
                           (enumerate 0 its))))
           (int (length (filter (\<lambda>(k, it). put_item env_first_fails k it \<noteq> None)
                           (enumerate 0 its))))"
    by blast
  have len: "length its = 87"
    using built_items_fields [OF its] by (simp add: static_lengths)
  have "map_sum id returned (seed_services env_first_fails ''dev'' False) = Inr (totals 87 86 1)"
    using r ret unfolding first_fails_counts [OF len] by simp
  ultimately show ?thesis by blast
qed

text \<open>
  C4, amended. A dry run gives nothing to \<open>put_item\<close>. Its \<open>processed\<close> count equals that
  of every real run that obtains the table handle, and its \<open>written\<close> count equals that
  real run's \<open>written\<close> count plus its \<open>errors\<close> count: the two \<open>written\<close> counts agree
  exactly when no write of the real run fails.
\<close>

theorem dry_run_writes_nothing_counts_attempts:
  assumes "open_table env' (get_table_name environment') = None"
  shows "\<exists>rd rr p w e. seed_services env environment True = Inr rd \<and>
       seed_services env' environment' False = Inr rr \<and>
       writes rd = [] \<and>
       returned rr = totals p w e \<and>
       returned rd = totals p (w + e) 0"
proof -
  from run_dry [of env environment] obtain rd where
    rd: "seed_services env environment True = Inr rd" and
    retd: "returned rd = totals 87 87 0" and wr: "writes rd = []"
    by blast
  from run_real [OF assms] obtain rr its where
    rr: "seed_services env' environment' False = Inr rr" and
    its: "built_items env' 0 all_services its" and
    retr: "returned rr =
         totals 87
           (int (length (filter (\<lambda>(k, it). put_item env' k it = None) (enumerate 0 its))))
           (int (length (filter (\<lambda>(k, it). put_item env' k it \<noteq> None) (enumerate 0 its))))"
    by blast
  have len: "int (length its) = 87"
    using built_items_fields [OF its] by (simp add: static_lengths)
  from rd rr retd wr retr outcome_counts [of env' 0 its] len show ?thesis
    by (intro exI [of _ rd] exI [of _ rr]) simp
qed

text \<open>A dry run without a usable library against a real run on a working table.\<close>

theorem dry_run_writes_nothing_counts_attempts_witness:
  "open_table env_ok (get_table_name ''prod'') = None \<and>
   (\<exists>rd rr p w e. seed_services env_no_handle ''dev'' True = Inr rd \<and>
       seed_services env_ok ''prod'' False = Inr rr \<and>
       writes rd = [] \<and>
       returned rr = totals p w e \<and>
       returned rd = totals p (w + e) 0)"
proof -
  have ok: "open_table env_ok (get_table_name ''prod'') = None"
    by (rule sample_handles(1))
  from dry_run_writes_nothing_counts_attempts
         [OF ok, where env = env_no_handle and environment = "''dev''"] ok
  show ?thesis by blast
qed

text \<open>
  C7, as stated, fails: the value returned is the flat dictionary of the three totals; its
  only keys are \<open>processed\<close>, \<open>written\<close> and \<open>errors\<close>, none of them a provider or a
  category.
\<close>

theorem returned_stats_are_flat_totals:
  "map_sum id returned (seed_services env_ok ''dev'' True) =
     Inr [(''processed'', 87), (''written'', 87), (''errors'', 0)] \<and>
   map_sum id (map fst \<circ> returned) (seed_services env_ok ''dev'' True) =
     Inr [''processed'', ''written'', ''errors'']"
proof -
  from run_dry [of env_ok "''dev''"] obtain r where
    "seed_services env_ok ''dev'' True = Inr r" and "returned r = totals 87 87 0"
    by blast
  then show ?thesis by simp
qed

text \<open>
  C7, amended. A dry run, and a real run that obtains the table handle, returns the three
  totals \<open>processed\<close>, \<open>written\<close> and \<open>errors\<close> only. The counts of processed entries by
  provider and by category are printed in the summary, together with the totals; they
  are not part of the returned value.
\<close>

theorem seed_returns_totals_prints_groups:
  assumes "dry_run \<or> open_table env (get_table_name environment) = None"
  shows "\<exists>r w e. seed_services env environment dry_run = Inr r \<and>
       returned r = [(''processed'', 87), (''written'', w), (''errors'', e)] \<and>
       printed r = summary_text 87 w e"
proof (cases dry_run)
  case True
  with run_dry [of env environment] show ?thesis by (auto simp del: append.simps)
next
  case False
  with assms have ok: "open_table env (get_table_name environment) = None" by simp
  from run_real [OF ok] obtain r w e where
    "seed_services env environment False = Inr r" "returned r = totals 87 w e"
    "printed r = summary_text 87 w e"
    by blast
  with False show ?thesis
    by (intro exI [of _ r] exI [of _ w] exI [of _ e]) (simp del: append.simps)
qed

text \<open>A real run on a working table: the three totals returned, the groups printed.\<close>

theorem seed_returns_totals_prints_groups_witness:
  "open_table env_ok (get_table_name ''dev'') = None \<and>
   (\<exists>r w e. seed_services env_ok ''dev'' False = Inr r \<and>
       returned r = [(''processed'', 87), (''written'', w), (''errors'', e)] \<and>
       printed r = summary_text 87 w e)"
proof -
  have ok: "False \<or> open_table env_ok (get_table_name ''dev'') = None"
    by (simp add: sample_handles)
  from seed_returns_totals_prints_groups [OF ok] sample_handles(1) [of "''dev''"]
  show ?thesis by blast
qed

text \<open>
  C6. If a scan call of the verification pass raises, the first call or any
  continuation, the pass is aborted: \<open>verify_table\<close> returns normally, it has printed
  the heading, the one line reporting the failure and the closing rule, with no count
  and no feature list, and the failed call was its last scan call, so the read is not
  retried. A scan call is made once the pass has obtained the table handle.
\<close>

theorem read_failure_aborts_verify:
  assumes "open_table env (get_table_name environment) = None"
    and "start_key (table_scan env) n = Some key" and "table_scan env n key = Inl e"
  shows "verify_table env environment =
           Some (Inr \<lparr> verify_printed =
                         [''Verifying master-integrations table: master-integrations'',
                          rule80,
                          ''Error verifying table: '' @ str_error e,
                          rule80],
                       scan_calls = Suc n \<rparr>)"
  using scan_all_fails [OF assms(2,3)] assms(1)
  by (simp add: verify_table_def get_table_name_def)

text \<open>The second scan call raises: two calls are made, and only the failure is reported.\<close>

theorem read_failure_aborts_verify_witness:
  "open_table verify_env_second_fails (get_table_name ''dev'') = None \<and>
   start_key (table_scan verify_env_second_fails) (Suc 0) = Some (Some [(''pk'', ''aws#s3'')]) \<and>
   table_scan verify_env_second_fails (Suc 0) (Some [(''pk'', ''aws#s3'')]) =
     Inl (StorageError ''ProvisionedThroughputExceededException'') \<and>
   verify_table verify_env_second_fails ''dev'' =
     Some (Inr \<lparr> verify_printed =
                   [''Verifying master-integrations table: master-integrations'',
                    rule80,
                    ''Error verifying table: ProvisionedThroughputExceededException'',
                    rule80],
                 scan_calls = 2 \<rparr>)"
proof -
  have h: "open_table verify_env_second_fails (get_table_name ''dev'') = None"
    by (rule sample_handles(4))
  have a: "start_key (table_scan verify_env_second_fails) (Suc 0) =
             Some (Some [(''pk'', ''aws#s3'')])"
    by (simp add: verify_env_second_fails_def scan_second_fails_def)
  have b: "table_scan verify_env_second_fails (Suc 0) (Some [(''pk'', ''aws#s3'')]) =
             Inl (StorageError ''ProvisionedThroughputExceededException'')"
    by (simp add: verify_env_second_fails_def scan_second_fails_def)
  from read_failure_aborts_verify [OF h a b] h a b show ?thesis
    by simp
qed

end
